theory Spec2Isabelle
  imports Complex_Main "HOL-Library.Sublist"
begin

section \<open>The binary container codec: \<open>packBinaryJson\<close>\<close>

text \<open>
  The source is \<open>src/unnamed/part_000\<close>; line numbers in this section are its lines.
  The values \<open>packBinaryJson\<close> walks: JSON values, plus the typed arrays
  (\<open>ArrayBuffer\<close> views) an in-memory tree may hold. A typed array is its element type
  and the numbers written into it; the conversion the store performs on each number
  (rounding to a 32-bit float, wrapping to 8 bits) is not modelled, so equality of two
  modelled typed arrays implies equality of the stored arrays. Numbers are reals (the
  finite doubles). A string is the list of its code units, each below 256. An object is
  the list of its own enumerable properties in \<open>for-in\<close> order; keys are distinct and
  none is \<open>__proto__\<close>.
\<close>

datatype ArrayType = Float32Array | Uint8Array

datatype TypedArray = TypedArray ArrayType "real list"

datatype json =
    JNull
  | JBool bool
  | JNum real
  | JStr string
  | JArr "json list"
  | JObj "(string \<times> json) list"
  | JTyped TypedArray

text \<open>What the source can throw: \<open>object[0].length\<close> on an empty array or a null element.\<close>

datatype error = TypeError

text \<open>\<open>options\<close>: the only field read is \<open>flattenArrays\<close>; \<open>None\<close> is \<open>undefined\<close>
  (the destructuring default \<open>true\<close> applies).\<close>

record options =
  flattenArrays :: "bool option"

definition defaultOptions :: options where
  "defaultOptions = \<lparr>flattenArrays = None\<rparr>"

text \<open>The \<open>objectKey\<close> parameter: \<open>null\<close> (its default), a property name, or, at the
  element-wise call of line 48, the options object itself.\<close>

datatype objectKey = KeyNull | KeyStr string | KeyOptions options

text \<open>
  Modelled from the spec: the \<open>gltfBuilder\<close> collaborator, which is \<open>@loaders.gl\<close>'s.
  Section 4.2: a buffer "is appended to the buffer list", an image "to the image list";
  section 3: the pointer index "is the position in the respective list at encode time".
  \<open>isImage\<close> is its test for image data; \<open>addBuffer\<close> and \<open>addImage\<close> append to its two
  lists and return the position of the new entry.
\<close>

record GLTFBuilder =
  isImage :: "TypedArray \<Rightarrow> bool"
  buffers :: "(TypedArray \<times> nat) list"
  images :: "TypedArray list"

definition addBuffer :: "GLTFBuilder \<Rightarrow> TypedArray \<Rightarrow> nat \<Rightarrow> nat \<times> GLTFBuilder" where
  "addBuffer b a sz = (length (buffers b), b\<lparr>buffers := buffers b @ [(a, sz)]\<rparr>)"

definition addImage :: "GLTFBuilder \<Rightarrow> TypedArray \<Rightarrow> nat \<times> GLTFBuilder" where
  "addImage b a = (length (images b), b\<lparr>images := images b @ [a]\<rparr>)"

text \<open>Decimal rendering of an index, as the template strings \<open>${bufferIndex}\<close> do.\<close>

definition digit :: "nat \<Rightarrow> char" where
  "digit d = char_of (48 + d)"

function showNat :: "nat \<Rightarrow> string" where
  "showNat n = (if n < 10 then [digit n] else showNat (n div 10) @ [digit (n mod 10)])"
  by pat_completeness auto
termination
  by (relation "measure id") auto

declare showNat.simps [simp del]

text \<open>\<open>packBinaryJsonTypedArray\<close> (lines 17-26); \<open>info\<close> is \<open>objectInfo\<close>: the \<open>size\<close>
  of the flattening, or \<open>None\<close> for \<open>null\<close>. A \<open>size\<close> of 0 is falsy.\<close>

definition packBinaryJsonTypedArray ::
  "GLTFBuilder \<Rightarrow> TypedArray \<Rightarrow> nat option \<Rightarrow> json \<times> GLTFBuilder" where
  "packBinaryJsonTypedArray gltfBuilder object info =
     (if isImage gltfBuilder object then
        (case addImage gltfBuilder object of
           (imageIndex, b') \<Rightarrow> (JStr (''#/images/'' @ showNat imageIndex), b'))
      else
        (let sz = (case info of Some s \<Rightarrow> (if s \<noteq> 0 then s else 3) | None \<Rightarrow> 3) in
         case addBuffer gltfBuilder object sz of
           (bufferIndex, b') \<Rightarrow> (JStr (''#/accessors/'' @ showNat bufferIndex), b')))"

text \<open>\<open>x.length === 4\<close> for the first element \<open>x\<close> of a \<open>colors\<close> array: arrays, typed
  arrays and strings have a length, an object has one if it has a property of that
  name, a number or boolean has none, and \<open>null.length\<close> throws.\<close>

fun lengthIs4 :: "json \<Rightarrow> error + bool" where
  "lengthIs4 JNull = Inl TypeError"
| "lengthIs4 (JArr xs) = Inr (length xs = 4)"
| "lengthIs4 (JTyped (TypedArray t xs)) = Inr (length xs = 4)"
| "lengthIs4 (JStr s) = Inr (length s = 4)"
| "lengthIs4 (JObj kvs) = Inr (map_of kvs ''length'' = Some (JNum 4))"
| "lengthIs4 (JNum n) = Inr False"
| "lengthIs4 (JBool b) = Inr False"

text \<open>
  \<open>flattenObject\<close> (lines 68-84). \<open>flattenToTypedArray\<close> is imported from \<open>../../utils\<close>
  and is the parameter \<open>flatten\<close>: it is given the array, the record size and the element
  type, and returns a typed array or \<open>null\<close> (\<open>None\<close>). The result is \<open>None\<close> for \<open>null\<close>,
  or the pair of \<open>typedArray\<close> and \<open>size\<close>. \<open>object[0]\<close> of an empty array is
  \<open>undefined\<close>, whose \<open>length\<close> throws.
\<close>

type_synonym flattener = "json list \<Rightarrow> nat \<Rightarrow> ArrayType \<Rightarrow> TypedArray option"

definition flattenObject ::
  "flattener \<Rightarrow> objectKey \<Rightarrow> json list \<Rightarrow> error + (TypedArray option \<times> nat) option" where
  "flattenObject flatten key object =
     (if key = KeyStr ''vertices'' \<or> key = KeyStr ''points'' then
        Inr (Some (flatten object 3 Float32Array, 3))
      else if key = KeyStr ''colors'' then
        (case object of
           [] \<Rightarrow> Inl TypeError
         | x # _ \<Rightarrow>
             (case lengthIs4 x of
                Inl e \<Rightarrow> Inl e
              | Inr four \<Rightarrow>
                  (let sz = (if four then 4 else 3) in
                   Inr (Some (flatten object sz Uint8Array, sz)))))
      else Inr None)"

text \<open>A typed array read as a plain object (no builder to pack it): \<open>for-in\<close> lists its
  indices, and each number is returned as it is.\<close>

definition typedArrayAsObject :: "TypedArray \<Rightarrow> json" where
  "typedArrayAsObject a =
     (case a of TypedArray t xs \<Rightarrow> JObj (map (\<lambda>(i, x). (showNat i, JNum x)) (enumerate 0 xs)))"

text \<open>
  \<open>packBinaryJson\<close> (lines 31-66). The builder is threaded through the walk; \<open>None\<close> is
  a call without one. \<open>packElements\<close> is the \<open>object.map\<close> of line 48 and \<open>packFields\<close>
  the \<open>for-in\<close> loop of lines 59-61.
\<close>

fun packBinaryJson ::
    "flattener \<Rightarrow> json \<Rightarrow> GLTFBuilder option \<Rightarrow> objectKey \<Rightarrow> options
       \<Rightarrow> error + (json \<times> GLTFBuilder option)"
  and packElements ::
    "flattener \<Rightarrow> json list \<Rightarrow> GLTFBuilder option \<Rightarrow> options
       \<Rightarrow> error + (json list \<times> GLTFBuilder option)"
  and packFields ::
    "flattener \<Rightarrow> (string \<times> json) list \<Rightarrow> GLTFBuilder option \<Rightarrow> options
       \<Rightarrow> error + ((string \<times> json) list \<times> GLTFBuilder option)"
where
  "packBinaryJson flatten (JStr s) gltfBuilder objectKey opts =
     (if prefix ''#/'' s then Inr (JStr (CHR ''#'' # s), gltfBuilder)
      else Inr (JStr s, gltfBuilder))"
| "packBinaryJson flatten (JArr xs) gltfBuilder objectKey opts =
     (case (if flattenArrays opts = Some False then Inr None
            else flattenObject flatten objectKey xs) of
        Inl e \<Rightarrow> Inl e
      | Inr None \<Rightarrow>
          (case packElements flatten xs gltfBuilder opts of
             Inl e \<Rightarrow> Inl e
           | Inr (ys, b') \<Rightarrow> Inr (JArr ys, b'))
      | Inr (Some (typedArray, sz)) \<Rightarrow>
          (case typedArray of
             None \<Rightarrow> Inr (JNull, gltfBuilder)
           | Some a \<Rightarrow>
               (case gltfBuilder of
                  Some b \<Rightarrow>
                    (case packBinaryJsonTypedArray b a (Some sz) of
                       (p, b') \<Rightarrow> Inr (p, Some b'))
                | None \<Rightarrow> Inr (typedArrayAsObject a, None))))"
| "packBinaryJson flatten (JTyped a) gltfBuilder objectKey opts =
     (case gltfBuilder of
        Some b \<Rightarrow> (case packBinaryJsonTypedArray b a None of (p, b') \<Rightarrow> Inr (p, Some b'))
      | None \<Rightarrow> Inr (typedArrayAsObject a, None))"
| "packBinaryJson flatten (JObj kvs) gltfBuilder objectKey opts =
     (case packFields flatten kvs gltfBuilder opts of
        Inl e \<Rightarrow> Inl e
      | Inr (kvs', b') \<Rightarrow> Inr (JObj kvs', b'))"
| "packBinaryJson flatten JNull gltfBuilder objectKey opts = Inr (JNull, gltfBuilder)"
| "packBinaryJson flatten (JBool v) gltfBuilder objectKey opts = Inr (JBool v, gltfBuilder)"
| "packBinaryJson flatten (JNum v) gltfBuilder objectKey opts = Inr (JNum v, gltfBuilder)"
| "packElements flatten [] gltfBuilder opts = Inr ([], gltfBuilder)"
| "packElements flatten (element # rest) gltfBuilder opts =
     (case packBinaryJson flatten element gltfBuilder (KeyOptions opts) defaultOptions of
        Inl e \<Rightarrow> Inl e
      | Inr (y, b') \<Rightarrow>
          (case packElements flatten rest b' opts of
             Inl e \<Rightarrow> Inl e
           | Inr (ys, b'') \<Rightarrow> Inr (y # ys, b'')))"
| "packFields flatten [] gltfBuilder opts = Inr ([], gltfBuilder)"
| "packFields flatten ((key, v) # rest) gltfBuilder opts =
     (case packBinaryJson flatten v gltfBuilder (KeyStr key) opts of
        Inl e \<Rightarrow> Inl e
      | Inr (y, b') \<Rightarrow>
          (case packFields flatten rest b' opts of
             Inl e \<Rightarrow> Inl e
           | Inr (ys, b'') \<Rightarrow> Inr ((key, y) # ys, b'')))"

subsection \<open>The flattening helper and the decoder\<close>

text \<open>
  Modelled from the spec: \<open>flattenToTypedArray\<close> (imported from \<open>../../utils\<close>, not
  among the sources). Section 4.2: an array is flattened "to a single 3-component-per-record"
  buffer, section 4.4: a flat numeric sequence is "used as-is" and nested records are
  "flattened in traversal order". A bare number is one component; a nested record
  contributes its first \<open>size\<close> components (zero-filled when it has fewer); anything that
  is not numeric gives \<open>null\<close>.
\<close>

fun recordNumbers :: "json list \<Rightarrow> real list option" where
  "recordNumbers [] = Some []"
| "recordNumbers (JNum x # rest) = map_option ((#) x) (recordNumbers rest)"
| "recordNumbers (_ # rest) = None"

fun flattenRecords :: "nat \<Rightarrow> json list \<Rightarrow> real list option" where
  "flattenRecords sz [] = Some []"
| "flattenRecords sz (JNum x # rest) = map_option ((#) x) (flattenRecords sz rest)"
| "flattenRecords sz (JArr r # rest) =
     (case recordNumbers r of
        None \<Rightarrow> None
      | Some ns \<Rightarrow> map_option ((@) (take sz (ns @ replicate sz 0))) (flattenRecords sz rest))"
| "flattenRecords sz (JTyped (TypedArray t ns) # rest) =
     map_option ((@) (take sz (ns @ replicate sz 0))) (flattenRecords sz rest)"
| "flattenRecords sz (_ # rest) = None"

definition flattenToTypedArray :: flattener where
  "flattenToTypedArray nestedArray dimensions arrayType =
     map_option (TypedArray arrayType) (flattenRecords dimensions nestedArray)"

text \<open>
  Modelled from the spec: the binary container of section 3, without its byte layout (the
  writer that serializes it is not among the sources): the JSON skeleton, the ordered
  list of numeric buffers (each with its component count) and the ordered list of images.
  \<open>encode\<close> is the walk of \<open>packBinaryJson\<close> from a fresh builder with the default arguments
  (\<open>objectKey = null\<close>, \<open>options = {}\<close>).
\<close>

record Container =
  skeleton :: json
  accessors :: "(TypedArray \<times> nat) list"
  imageBuffers :: "TypedArray list"

definition encode :: "flattener \<Rightarrow> (TypedArray \<Rightarrow> bool) \<Rightarrow> json \<Rightarrow> error + Container" where
  "encode flatten img tree =
     (case packBinaryJson flatten tree
             (Some \<lparr>isImage = img, buffers = [], images = []\<rparr>) KeyNull defaultOptions of
        Inl e \<Rightarrow> Inl e
      | Inr (sk, None) \<Rightarrow> Inr \<lparr>skeleton = sk, accessors = [], imageBuffers = []\<rparr>
      | Inr (sk, Some b) \<Rightarrow>
          Inr \<lparr>skeleton = sk, accessors = buffers b, imageBuffers = images b\<rparr>)"

text \<open>
  Modelled from the spec: the decoder, which is \<open>@loaders.gl\<close>'s (line 30: "The unpacking
  is handled automatically by @loaders.gl"). Section 4.2: a pointer \<open>#/accessors/<n>\<close> or
  \<open>#/images/<n>\<close> is resolved "by positional index into the buffer/image table" and the
  typed data spliced "back in place of the pointer string"; decode fails "with a
  structural error if a pointer index is out of range"; an escaped string "is unescaped
  by removing one leading \<open>#\<close>", and it is known as escaped by its beginning \<open>##/\<close>.
\<close>

datatype decodeError = MalformedContainer

definition isDigit :: "char \<Rightarrow> bool" where
  "isDigit c = (48 \<le> (of_char c :: nat) \<and> (of_char c :: nat) \<le> 57)"

definition parseNat :: "string \<Rightarrow> nat option" where
  "parseNat s =
     (if s \<noteq> [] \<and> list_all isDigit s
      then Some (foldl (\<lambda>a c. 10 * a + (of_char c - 48)) 0 s) else None)"

definition stripPrefix :: "string \<Rightarrow> string \<Rightarrow> string option" where
  "stripPrefix p s = (if prefix p s then Some (drop (length p) s) else None)"

definition pointerIndex :: "string \<Rightarrow> string \<Rightarrow> nat option" where
  "pointerIndex table s = (case stripPrefix table s of None \<Rightarrow> None | Some ds \<Rightarrow> parseNat ds)"

definition unpackString ::
  "(TypedArray \<times> nat) list \<Rightarrow> TypedArray list \<Rightarrow> string \<Rightarrow> decodeError + json" where
  "unpackString bufs imgs s =
     (case pointerIndex ''#/accessors/'' s of
        Some n \<Rightarrow> (if n < length bufs then Inr (JTyped (fst (bufs ! n)))
                   else Inl MalformedContainer)
      | None \<Rightarrow>
          (case pointerIndex ''#/images/'' s of
             Some n \<Rightarrow> (if n < length imgs then Inr (JTyped (imgs ! n))
                        else Inl MalformedContainer)
           | None \<Rightarrow> (if prefix ''##/'' s then Inr (JStr (tl s)) else Inr (JStr s))))"

fun unpackBinaryJson ::
    "(TypedArray \<times> nat) list \<Rightarrow> TypedArray list \<Rightarrow> json \<Rightarrow> decodeError + json"
  and unpackElements ::
    "(TypedArray \<times> nat) list \<Rightarrow> TypedArray list \<Rightarrow> json list \<Rightarrow> decodeError + json list"
  and unpackFields ::
    "(TypedArray \<times> nat) list \<Rightarrow> TypedArray list \<Rightarrow> (string \<times> json) list
       \<Rightarrow> decodeError + (string \<times> json) list"
where
  "unpackBinaryJson bufs imgs (JStr s) = unpackString bufs imgs s"
| "unpackBinaryJson bufs imgs (JArr xs) =
     (case unpackElements bufs imgs xs of Inl e \<Rightarrow> Inl e | Inr ys \<Rightarrow> Inr (JArr ys))"
| "unpackBinaryJson bufs imgs (JObj kvs) =
     (case unpackFields bufs imgs kvs of Inl e \<Rightarrow> Inl e | Inr kvs' \<Rightarrow> Inr (JObj kvs'))"
| "unpackBinaryJson bufs imgs JNull = Inr JNull"
| "unpackBinaryJson bufs imgs (JBool v) = Inr (JBool v)"
| "unpackBinaryJson bufs imgs (JNum v) = Inr (JNum v)"
| "unpackBinaryJson bufs imgs (JTyped a) = Inr (JTyped a)"
| "unpackElements bufs imgs [] = Inr []"
| "unpackElements bufs imgs (x # rest) =
     (case unpackBinaryJson bufs imgs x of
        Inl e \<Rightarrow> Inl e
      | Inr y \<Rightarrow>
          (case unpackElements bufs imgs rest of Inl e \<Rightarrow> Inl e | Inr ys \<Rightarrow> Inr (y # ys)))"
| "unpackFields bufs imgs [] = Inr []"
| "unpackFields bufs imgs ((key, v) # rest) =
     (case unpackBinaryJson bufs imgs v of
        Inl e \<Rightarrow> Inl e
      | Inr y \<Rightarrow>
          (case unpackFields bufs imgs rest of
             Inl e \<Rightarrow> Inl e
           | Inr ys \<Rightarrow> Inr ((key, y) # ys)))"

definition decode :: "Container \<Rightarrow> decodeError + json" where
  "decode c = unpackBinaryJson (accessors c) (imageBuffers c) (skeleton c)"

subsection \<open>What a round trip is expected to return\<close>

text \<open>
  The flattening policy of section 4.2 applied in place, from the spec's words: a numeric
  array under the key \<open>vertices\<close> or \<open>points\<close> becomes one 3-component-per-record 32-bit
  float buffer, one under \<open>colors\<close> one 8-bit unsigned buffer with 3 or 4 components per
  record (4 when the first element has length 4), any other array is walked element by
  element with no key, an object field by field under the field's name, and every other
  value is left as it is. The buffer is the one the flattening helper returns; where the
  helper returns none, the array under the key is not a numeric array and the policy
  gives no tree.
\<close>

definition colorStride :: "json list \<Rightarrow> nat" where
  "colorStride xs = (case xs of x # _ \<Rightarrow> (if lengthIs4 x = Inr True then 4 else 3) | [] \<Rightarrow> 3)"

fun flattenPolicy :: "flattener \<Rightarrow> string option \<Rightarrow> json \<Rightarrow> json option"
  and flattenPolicyElements :: "flattener \<Rightarrow> json list \<Rightarrow> json list option"
  and flattenPolicyFields ::
    "flattener \<Rightarrow> (string \<times> json) list \<Rightarrow> (string \<times> json) list option"
where
  "flattenPolicy flatten key (JArr xs) =
     (if key = Some ''vertices'' \<or> key = Some ''points''
      then map_option JTyped (flatten xs 3 Float32Array)
      else if key = Some ''colors''
      then map_option JTyped (flatten xs (colorStride xs) Uint8Array)
      else map_option JArr (flattenPolicyElements flatten xs))"
| "flattenPolicy flatten key (JObj kvs) = map_option JObj (flattenPolicyFields flatten kvs)"
| "flattenPolicy flatten key (JStr s) = Some (JStr s)"
| "flattenPolicy flatten key JNull = Some JNull"
| "flattenPolicy flatten key (JBool v) = Some (JBool v)"
| "flattenPolicy flatten key (JNum v) = Some (JNum v)"
| "flattenPolicy flatten key (JTyped a) = Some (JTyped a)"
| "flattenPolicyElements flatten [] = Some []"
| "flattenPolicyElements flatten (x # rest) =
     (case flattenPolicy flatten None x of
        None \<Rightarrow> None
      | Some y \<Rightarrow> map_option ((#) y) (flattenPolicyElements flatten rest))"
| "flattenPolicyFields flatten [] = Some []"
| "flattenPolicyFields flatten ((k, v) # rest) =
     (case flattenPolicy flatten (Some k) v of
        None \<Rightarrow> None
      | Some y \<Rightarrow> map_option ((#) (k, y)) (flattenPolicyFields flatten rest))"

text \<open>Equality of two trees up to the numeric type of their arrays: a typed array is read
  as the plain array of its numbers.\<close>

fun eraseTypes :: "json \<Rightarrow> json"
  and eraseTypesElements :: "json list \<Rightarrow> json list"
  and eraseTypesFields :: "(string \<times> json) list \<Rightarrow> (string \<times> json) list"
where
  "eraseTypes (JTyped (TypedArray t ns)) = JArr (map JNum ns)"
| "eraseTypes (JArr xs) = JArr (eraseTypesElements xs)"
| "eraseTypes (JObj kvs) = JObj (eraseTypesFields kvs)"
| "eraseTypes (JStr s) = JStr s"
| "eraseTypes JNull = JNull"
| "eraseTypes (JBool v) = JBool v"
| "eraseTypes (JNum v) = JNum v"
| "eraseTypesElements [] = []"
| "eraseTypesElements (x # rest) = eraseTypes x # eraseTypesElements rest"
| "eraseTypesFields [] = []"
| "eraseTypesFields ((k, v) # rest) = (k, eraseTypes v) # eraseTypesFields rest"

text \<open>No string value of the tree begins with \<open>##/\<close>.\<close>

fun noEscapedLiteral :: "json \<Rightarrow> bool"
  and noEscapedLiteralElements :: "json list \<Rightarrow> bool"
  and noEscapedLiteralFields :: "(string \<times> json) list \<Rightarrow> bool"
where
  "noEscapedLiteral (JStr s) = (\<not> prefix ''##/'' s)"
| "noEscapedLiteral (JArr xs) = noEscapedLiteralElements xs"
| "noEscapedLiteral (JObj kvs) = noEscapedLiteralFields kvs"
| "noEscapedLiteral JNull = True"
| "noEscapedLiteral (JBool v) = True"
| "noEscapedLiteral (JNum v) = True"
| "noEscapedLiteral (JTyped a) = True"
| "noEscapedLiteralElements [] = True"
| "noEscapedLiteralElements (x # rest) = (noEscapedLiteral x \<and> noEscapedLiteralElements rest)"
| "noEscapedLiteralFields [] = True"
| "noEscapedLiteralFields ((k, v) # rest) = (noEscapedLiteral v \<and> noEscapedLiteralFields rest)"

definition keyName :: "objectKey \<Rightarrow> string option" where
  "keyName k = (case k of KeyStr s \<Rightarrow> Some s | _ \<Rightarrow> None)"

text \<open>What the encoder accepts: a \<open>colors\<close> array must have a first element that is not
  \<open>null\<close>, since line 77 reads its \<open>length\<close>.\<close>

fun encodable :: "string option \<Rightarrow> json \<Rightarrow> bool"
  and encodableElements :: "json list \<Rightarrow> bool"
  and encodableFields :: "(string \<times> json) list \<Rightarrow> bool"
where
  "encodable key (JArr xs) =
     (if key = Some ''vertices'' \<or> key = Some ''points'' then True
      else if key = Some ''colors'' then (case xs of [] \<Rightarrow> False | x # _ \<Rightarrow> x \<noteq> JNull)
      else encodableElements xs)"
| "encodable key (JObj kvs) = encodableFields kvs"
| "encodable key (JStr s) = True"
| "encodable key JNull = True"
| "encodable key (JBool v) = True"
| "encodable key (JNum v) = True"
| "encodable key (JTyped a) = True"
| "encodableElements [] = True"
| "encodableElements (x # rest) = (encodable None x \<and> encodableElements rest)"
| "encodableFields [] = True"
| "encodableFields ((k, v) # rest) = (encodable (Some k) v \<and> encodableFields rest)"

text \<open>A builder after more calls: the same image test, and both lists only appended to.\<close>

definition grows :: "GLTFBuilder \<Rightarrow> GLTFBuilder \<Rightarrow> bool" where
  "grows b b1 = (isImage b1 = isImage b \<and> prefix (buffers b) (buffers b1)
                  \<and> prefix (images b) (images b1))"

subsection \<open>Positions in a tree\<close>

text \<open>A position in a tree: the property names and array indices that lead to a value,
  and the value found there. A property is looked up by its name (the first field of
  that name).\<close>

datatype step = Field string | Index nat

fun lookup :: "json \<Rightarrow> step list \<Rightarrow> json option" where
  "lookup t [] = Some t"
| "lookup (JObj kvs) (Field k # p) =
     (case map_of kvs k of Some v \<Rightarrow> lookup v p | None \<Rightarrow> None)"
| "lookup (JArr xs) (Index i # p) = (if i < length xs then lookup (xs ! i) p else None)"
| "lookup _ _ = None"



section \<open>The websocket sender: \<open>XVIZWebsocketSender\<close>\<close>

text \<open>
  The source is \<open>src/modules/server/src/middlewares/xviz-websocket-sender.js\<close>; line
  numbers in this section are its lines.
  \<open>XVIZFormat\<close> is imported from \<open>@xviz/io\<close>. The tests of \<open>XVIZData\<close>
  (\<open>src/scripts/lint.sh\<close>, lines 1036-1070) name its members \<open>OBJECT\<close>, \<open>JSON_STRING\<close>,
  \<open>JSON_BUFFER\<close> and \<open>BINARY\<close>, and compare \<open>XVIZFormat.BINARY\<close> with the string
  \<open>'BINARY'\<close>. \<open>msg.data\<close> is seen through the three members the sender reads:
  \<open>dataFormat()\<close>, which answers one of the four members, \<open>hasMessage()\<close> and \<open>buffer\<close>,
  which is a string, a byte buffer (with a \<open>byteLength\<close>) or any other object.
\<close>

datatype XVIZFormat = BINARY | JSON_BUFFER | JSON_STRING | OBJECT

text \<open>A value where the sender expects a format: \<open>undefined\<close> (an option left out, a
  property that does not exist), \<open>null\<close>, or a member of \<open>XVIZFormat\<close>. \<open>===\<close> on such
  values is equality; only a member is truthy.\<close>

datatype FormatValue = Undefined | Null | Format XVIZFormat

definition truthy :: "FormatValue \<Rightarrow> bool" where
  "truthy v = (case v of Format f \<Rightarrow> True | _ \<Rightarrow> False)"

text \<open>The sender reads \<open>XVIZFormat.object\<close> (lines 54, 83, 101) and \<open>XVIZFormat.binary\<close>
  (line 48), in lower case. The enumeration has no member of either name, so both reads
  are \<open>undefined\<close>.\<close>

definition XVIZFormat_object :: FormatValue where
  "XVIZFormat_object = Undefined"

definition XVIZFormat_binary :: FormatValue where
  "XVIZFormat_binary = Undefined"

datatype Buffer = StringBuffer string | ByteBuffer "nat list" | ObjectBuffer json

record XVIZData =
  dataFormat :: XVIZFormat
  hasMessage :: bool
  buffer :: Buffer

text \<open>The options of the sender; for \<open>compress\<close>, \<open>None\<close> is a field left out.\<close>

record SenderOptions =
  format :: FormatValue
  socketFormatPreference :: FormatValue
  compress :: "bool option"

text \<open>What reaches the websocket or the format writer: \<open>socket.send(data, {compress})\<close>
  with the buffer itself or with \<open>JSON.stringify\<close> of it (a string), or a call of the
  \<open>XVIZFormatWriter\<close> that was built with \<open>{format}\<close>. A method call on a \<open>null\<close>
  writer throws.\<close>

datatype Payload = Unchanged Buffer | JsonStringify Buffer

datatype Effect =
    SocketSend Payload bool
  | WriteMetadata FormatValue XVIZData
  | WriteFrame FormatValue nat XVIZData
  | Throws

text \<open>The sender: \<open>writer\<close> is \<open>None\<close> for \<open>null\<close>, and otherwise holds the format its
  writer was built with.\<close>

record XVIZWebsocketSender =
  senderOptions :: SenderOptions
  defaultFormat :: FormatValue
  senderFormat :: FormatValue
  writer :: "FormatValue option"

datatype SenderError = CannotSendFormat FormatValue

text \<open>The constructor (lines 38-63).\<close>

definition newSender :: "SenderOptions \<Rightarrow> SenderError + XVIZWebsocketSender" where
  "newSender opts =
     (if format opts = XVIZFormat_object then Inl (CannotSendFormat (format opts))
      else Inr \<lparr>senderOptions = opts,
                defaultFormat = (if truthy (socketFormatPreference opts)
                                 then socketFormatPreference opts else XVIZFormat_binary),
                senderFormat = format opts,
                writer = None\<rparr>)"

text \<open>\<open>WebsocketSink.writeSync\<close> (lines 22-29): the name is not used; a string is always
  sent compressed.\<close>

definition isString :: "Payload \<Rightarrow> bool" where
  "isString p = (case p of JsonStringify b \<Rightarrow> True
                 | Unchanged (StringBuffer s) \<Rightarrow> True
                 | Unchanged _ \<Rightarrow> False)"

definition writeSync :: "SenderOptions \<Rightarrow> string \<Rightarrow> Payload \<Rightarrow> Effect" where
  "writeSync opts name payload =
     SocketSend payload (if isString payload then True
                         else (case compress opts of Some c \<Rightarrow> c | None \<Rightarrow> False))"

text \<open>\<open>_syncFormatWithWriter\<close> (lines 66-74).\<close>

definition syncFormatWithWriter ::
  "XVIZWebsocketSender \<Rightarrow> FormatValue \<Rightarrow> XVIZWebsocketSender" where
  "syncFormatWithWriter self fmt =
     (if writer self = None \<or> senderFormat self \<noteq> fmt
      then self\<lparr>writer := Some fmt, senderFormat := fmt\<rparr>
      else self)"

text \<open>\<open>_sendDataDirect\<close> (lines 77-91).\<close>

definition sendDataDirect :: "XVIZWebsocketSender \<Rightarrow> XVIZData \<Rightarrow> bool" where
  "sendDataDirect self msg =
     (let fmt = format (senderOptions self); sourceFormat = Format (dataFormat msg) in
      if (\<not> truthy fmt \<or> sourceFormat = fmt) \<and> sourceFormat \<noteq> XVIZFormat_object
      then (if \<not> hasMessage msg then True else False)
      else False)"

text \<open>\<open>_getFormatOptions\<close> (lines 93-114), its \<open>format\<close> field.\<close>

definition noByteLength :: "Buffer \<Rightarrow> bool" where
  "noByteLength b = (case b of ByteBuffer bytes \<Rightarrow> length bytes = 0 | _ \<Rightarrow> True)"

definition notStringBuffer :: "Buffer \<Rightarrow> bool" where
  "notStringBuffer b = (case b of StringBuffer s \<Rightarrow> False | _ \<Rightarrow> True)"

definition getFormatOptions :: "XVIZWebsocketSender \<Rightarrow> XVIZData \<Rightarrow> FormatValue" where
  "getFormatOptions self msg =
     (if \<not> truthy (senderFormat self)
      then (if Format (dataFormat msg) = XVIZFormat_object \<or>
               (\<not> hasMessage msg \<and> notStringBuffer (buffer msg) \<and> noByteLength (buffer msg))
            then defaultFormat self
            else Format (dataFormat msg))
      else senderFormat self)"

text \<open>The four handlers (lines 116-150): each returns the sender as it is left and what
  was sent.\<close>

definition onError :: "XVIZWebsocketSender \<Rightarrow> XVIZData \<Rightarrow> XVIZWebsocketSender \<times> Effect" where
  "onError self msg =
     (self, writeSync (senderOptions self) ''error'' (JsonStringify (buffer msg)))"

definition onMetadata :: "XVIZWebsocketSender \<Rightarrow> XVIZData \<Rightarrow> XVIZWebsocketSender \<times> Effect" where
  "onMetadata self msg =
     (let fmt = getFormatOptions self msg in
      if sendDataDirect self msg
      then (self, writeSync (senderOptions self) ''1-frame'' (Unchanged (buffer msg)))
      else (let self' = syncFormatWithWriter self fmt in
            (self', case writer self' of Some w \<Rightarrow> WriteMetadata w msg | None \<Rightarrow> Throws)))"

definition onStateUpdate :: "XVIZWebsocketSender \<Rightarrow> XVIZData \<Rightarrow> XVIZWebsocketSender \<times> Effect" where
  "onStateUpdate self msg =
     (let fmt = getFormatOptions self msg in
      if sendDataDirect self msg
      then (self, writeSync (senderOptions self) ''2-frame'' (Unchanged (buffer msg)))
      else (let self' = syncFormatWithWriter self fmt in
            (self', case writer self' of Some w \<Rightarrow> WriteFrame w 0 msg | None \<Rightarrow> Throws)))"

definition onTransformLogDone ::
  "XVIZWebsocketSender \<Rightarrow> XVIZData \<Rightarrow> XVIZWebsocketSender \<times> Effect" where
  "onTransformLogDone self msg =
     (self, writeSync (senderOptions self) ''done'' (JsonStringify (buffer msg)))"

text \<open>The outgoing messages of a session, by the handler that sends them.\<close>

datatype Outgoing = MetadataMsg | StateUpdateMsg | ErrorMsg | TransformLogDoneMsg

definition send :: "XVIZWebsocketSender \<Rightarrow> Outgoing \<Rightarrow> XVIZData \<Rightarrow> XVIZWebsocketSender \<times> Effect" where
  "send self kind msg =
     (case kind of
        MetadataMsg \<Rightarrow> onMetadata self msg
      | StateUpdateMsg \<Rightarrow> onStateUpdate self msg
      | ErrorMsg \<Rightarrow> onError self msg
      | TransformLogDoneMsg \<Rightarrow> onTransformLogDone self msg)"

text \<open>The two outcomes the claim about the sender speaks of: the buffer of the message
  written to the sink as it is, and the message handed to a format writer
  (\<open>writeMetadata(msg.data)\<close> or \<open>writeFrame(0, msg.data)\<close>).\<close>

definition forwardsUnchanged :: "Effect \<Rightarrow> XVIZData \<Rightarrow> bool" where
  "forwardsUnchanged e msg =
     (case e of SocketSend p c \<Rightarrow> p = Unchanged (buffer msg) | _ \<Rightarrow> False)"

definition reencodes :: "Effect \<Rightarrow> XVIZData \<Rightarrow> bool" where
  "reencodes e msg =
     (case e of WriteMetadata w d \<Rightarrow> d = msg
      | WriteFrame w i d \<Rightarrow> i = 0 \<and> d = msg
      | _ \<Rightarrow> False)"

section \<open>The protocol message parser and the stream normalizer\<close>

text \<open>
  The parser (\<open>@xviz/parser\<close>) is not among the sources: only its tests are, in
  \<open>src/scripts/lint.sh\<close> from line 68 on; line numbers of tests are lines of that file.
  Its functions are modelled from sections 3, 4.3 and 4.4 of the spec, restricted to the
  fields the properties below read.
\<close>

subsection \<open>Envelopes\<close>

text \<open>Modelled from the spec: \<open>unpackEnvelope\<close> (only its test is among the sources).
  Section 3: namespace and type "are derived by splitting a \<open>type\<close> field on the first
  \<open>/\<close>; a leading \<open>/\<close> yields an empty namespace and the remainder (including further
  slashes) as type; absence of \<open>/\<close> yields empty type".\<close>

record 'd Envelope =
  namespace :: string
  msgType :: string
  msgData :: 'd

definition unpackEnvelope :: "string \<Rightarrow> 'd \<Rightarrow> 'd Envelope" where
  "unpackEnvelope rawType d =
     \<lparr>namespace = takeWhile (\<lambda>c. c \<noteq> CHR ''/'') rawType,
      msgType = drop 1 (dropWhile (\<lambda>c. c \<noteq> CHR ''/'') rawType),
      msgData = d\<rparr>"

subsection \<open>The version gate\<close>

text \<open>The protocol config of section 3 (the preprocessing hook left out).\<close>

record XVIZConfig =
  currentMajorVersion :: nat
  supportedVersions :: "nat list"
  PRIMARY_POSE_STREAM :: string

text \<open>The two thrown errors of section 7; \<open>UnsupportedVersion\<close> names the detected version
  and the required set.\<close>

datatype ParseError = UnsupportedVersion nat "nat list" | UndetectableVersion

text \<open>Modelled from the spec: the version detection of section 4.3, step 2 (the parser is
  not among the sources). A version string is parsed for "its major component", the
  digits before the first dot; a present string that does not parse is a hard error; with
  no version string the configured major version is assumed.\<close>

definition majorVersion :: "string \<Rightarrow> nat option" where
  "majorVersion s = parseNat (takeWhile (\<lambda>c. c \<noteq> CHR ''.'') s)"

definition detectVersion :: "XVIZConfig \<Rightarrow> string option \<Rightarrow> ParseError + nat" where
  "detectVersion cfg v =
     (case v of
        None \<Rightarrow> Inr (currentMajorVersion cfg)
      | Some s \<Rightarrow> (case majorVersion s of None \<Rightarrow> Inl UndetectableVersion | Some m \<Rightarrow> Inr m))"

text \<open>Modelled from the spec: the version support check of section 4.3, step 3. The
  detected major version "must be a member of \<open>supportedVersions\<close>; mismatch is a hard
  error naming both the detected and required set".\<close>

definition checkSupported :: "XVIZConfig \<Rightarrow> nat \<Rightarrow> ParseError + nat" where
  "checkSupported cfg m =
     (if m \<in> set (supportedVersions cfg) then Inr m
      else Inl (UnsupportedVersion m (supportedVersions cfg)))"

subsection \<open>Point clouds\<close>

text \<open>A point primitive as the normalizer reads it: its id, its \<open>points\<close> (nested
  triples, a flat sequence or a typed array), its \<open>colors\<close> and its single \<open>color\<close>.\<close>

record PointEntry =
  objectId :: "string option"
  points :: json
  colors :: "json option"
  color :: "json option"

record PointCloud =
  positions :: "real list"
  pointColors :: "real list option"
  ids :: "string option list"
  numInstances :: nat

text \<open>Modelled from the spec: the flattening of one entry's points (section 4.4): "one
  growing position buffer (flattened to 3 components per point)"; a sequence that is
  already flat is used as it is.\<close>

definition numbers :: "TypedArray option \<Rightarrow> real list" where
  "numbers a = (case a of Some (TypedArray t ns) \<Rightarrow> ns | None \<Rightarrow> [])"

definition entryPositions :: "PointEntry \<Rightarrow> real list" where
  "entryPositions e =
     (case points e of
        JArr xs \<Rightarrow> numbers (flattenToTypedArray xs 3 Float32Array)
      | JTyped a \<Rightarrow> numbers (Some a)
      | _ \<Rightarrow> [])"

text \<open>Modelled from the spec: the colors of one entry (section 4.4): the stride is
  "inferred identically to the codec's flattening rule - first color entry's component
  count, preferring the explicit \<open>colors\<close> field over a single fallback \<open>color\<close>". The
  codec's rule is \<open>flattenObject\<close> under the key \<open>colors\<close>; colors that are already a
  flat buffer are used as they are. \<open>None\<close>: the entry supplies no colors.\<close>

definition entryColors :: "PointEntry \<Rightarrow> real list option" where
  "entryColors e =
     (case colors e of
        Some (JArr cs) \<Rightarrow>
          (case flattenObject flattenToTypedArray (KeyStr ''colors'') cs of
             Inr (Some (a, sz)) \<Rightarrow> Some (numbers a) | _ \<Rightarrow> None)
      | Some (JTyped a) \<Rightarrow> Some (numbers (Some a))
      | Some _ \<Rightarrow> None
      | None \<Rightarrow>
          (case color e of
             Some c \<Rightarrow>
               (case flattenObject flattenToTypedArray (KeyStr ''colors'') [c] of
                  Inr (Some (a, sz)) \<Rightarrow> Some (numbers a) | _ \<Rightarrow> None)
           | None \<Rightarrow> None))"

text \<open>Modelled from the spec: the merge of one stream's point primitives (section 4.4):
  one position buffer, colors "absent unless any entry supplies colors", "an \<open>ids\<close>
  sequence (one id per merged entry, not per point), and \<open>numInstances\<close> equal to the
  number of merged entries".\<close>

definition mergedColors :: "PointEntry list \<Rightarrow> real list option" where
  "mergedColors es =
     (if list_all (\<lambda>e. entryColors e = None) es then None
      else Some (concat (map (\<lambda>e. case entryColors e of Some cs \<Rightarrow> cs | None \<Rightarrow> []) es)))"

definition normalizePointCloud :: "PointEntry list \<Rightarrow> PointCloud" where
  "normalizePointCloud es =
     \<lparr>positions = concat (map entryPositions es),
      pointColors = mergedColors es,
      ids = map objectId es,
      numInstances = length es\<rparr>"

subsection \<open>Messages and the timeslice path\<close>

text \<open>A message as the parser reads it. \<open>declaredType\<close> is the explicit sub-type
  (\<open>opts.v2Type\<close> or the envelope's type); \<open>log_info\<close> and \<open>streams\<close> record the presence
  of these keys; a \<open>timestamp\<close> that is \<open>null\<close> or absent is \<open>None\<close>; \<open>updates\<close> (v2) and
  \<open>state_updates\<close> (v1) are \<open>None\<close> when absent; \<open>vehicle_pose\<close> is the pose of a v1
  message, with its \<open>time\<close>.\<close>

record Pose =
  poseTimestamp :: "real option"

record Update =
  updateTimestamp :: "real option"
  poses :: "(string \<times> Pose) list"
  pointPrimitives :: "(string \<times> PointEntry list) list"

record Message =
  version :: "string option"
  declaredType :: "string option"
  log_info :: bool
  streams :: bool
  timestamp :: "real option"
  updates :: "Update list option"
  state_updates :: "Update list option"
  vehicle_pose :: "Pose option"
  errorText :: string
  doneId :: string

text \<open>The canonical message of section 3.\<close>

datatype Canonical =
    Metadata nat
  | Timeslice real "(string \<times> PointCloud) list"
  | Incomplete string
  | Error string
  | Done string

datatype SubType = MetadataType | StateUpdateType | ErrorType | TransformLogDoneType

text \<open>Modelled from the spec: the dispatch of section 4.3, step 4, "by declared or
  inferred sub-type"; when not explicit, "presence of \<open>log_info\<close>/\<open>streams\<close>" means
  metadata and "presence of \<open>updates\<close>/\<open>state_updates\<close>" a timeslice.\<close>

definition subTypeOf :: "Message \<Rightarrow> SubType option" where
  "subTypeOf m =
     (case declaredType m of
        Some t \<Rightarrow>
          (if t = ''metadata'' then Some MetadataType
           else if t = ''state_update'' then Some StateUpdateType
           else if t = ''error'' then Some ErrorType
           else if t = ''transform_log_done'' then Some TransformLogDoneType
           else None)
      | None \<Rightarrow>
          (if log_info m \<or> streams m then Some MetadataType
           else if updates m \<noteq> None \<or> state_updates m \<noteq> None then Some StateUpdateType
           else None))"

definition updatesField :: "nat \<Rightarrow> string" where
  "updatesField v = (if v = 1 then ''state_updates'' else ''updates'')"

definition updatesOf :: "nat \<Rightarrow> Message \<Rightarrow> Update list option" where
  "updatesOf v m = (if v = 1 then state_updates m else updates m)"

definition quoted :: "string \<Rightarrow> string" where
  "quoted s = [CHR 0x22] @ s @ [CHR 0x22]"

text \<open>Modelled from the spec: the poses of a frame (section 4.4): "merge v1
  (\<open>vehicle_pose\<close> ...) and v2 (\<open>poses\<close> map keyed by stream ...) into one shape". The
  \<open>vehicle_pose\<close> of a v1 message is the pose of the primary pose stream; the poses of the
  updates follow in the order they are listed.\<close>

definition messagePoses :: "XVIZConfig \<Rightarrow> Message \<Rightarrow> (string \<times> Pose) list" where
  "messagePoses cfg m =
     (case vehicle_pose m of Some p \<Rightarrow> [(PRIMARY_POSE_STREAM cfg, p)] | None \<Rightarrow> [])"

definition framePoses :: "XVIZConfig \<Rightarrow> Message \<Rightarrow> Update list \<Rightarrow> (string \<times> Pose) list" where
  "framePoses cfg m us = messagePoses cfg m @ concat (map poses us)"

text \<open>Modelled from the spec: the timestamp of one update entry (section 4.3, step 5):
  "directly, or via the configured primary pose stream's own timestamp".\<close>

definition resolveTimestamp :: "XVIZConfig \<Rightarrow> Message \<Rightarrow> Update \<Rightarrow> real option" where
  "resolveTimestamp cfg m u =
     (case updateTimestamp u of
        Some t \<Rightarrow> Some t
      | None \<Rightarrow>
          (case map_of (messagePoses cfg m @ poses u) (PRIMARY_POSE_STREAM cfg) of
             Some p \<Rightarrow> poseTimestamp p
           | None \<Rightarrow> None))"

text \<open>Modelled from the spec: the timestamp of "the first pose encountered in stream-name
  iteration order" that carries one.\<close>

definition firstPoseTimestamp :: "(string \<times> Pose) list \<Rightarrow> real option" where
  "firstPoseTimestamp ps =
     (case find (\<lambda>(name, p). poseTimestamp p \<noteq> None) ps of
        Some (name, p) \<Rightarrow> poseTimestamp p
      | None \<Rightarrow> None)"

text \<open>Modelled from the spec: the timestamp of the frame. A pose's own timestamp "is
  promoted to the message timestamp"; the test of lines 492-513 expects the pose's time
  also for a message that has a top-level timestamp, so the poses are asked first and the
  top-level timestamp after them. With neither, the spec names no source: the first
  update's timestamp is taken.\<close>

definition frameTimestamp :: "XVIZConfig \<Rightarrow> Message \<Rightarrow> Update list \<Rightarrow> real option" where
  "frameTimestamp cfg m us =
     (case firstPoseTimestamp (framePoses cfg m us) of
        Some t \<Rightarrow> Some t
      | None \<Rightarrow>
          (case timestamp m of
             Some t \<Rightarrow> Some t
           | None \<Rightarrow> (case us of u # _ \<Rightarrow> resolveTimestamp cfg m u | [] \<Rightarrow> None)))"

text \<open>Modelled from the spec: the streams of a frame (section 4.4): "merge all entries for
  that stream across this frame into one \<open>StreamEntry\<close>".\<close>

definition frameStreams :: "Update list \<Rightarrow> (string \<times> PointCloud) list" where
  "frameStreams us =
     (let prims = concat (map pointPrimitives us) in
      map (\<lambda>name. (name, normalizePointCloud
                           (concat (map snd (filter (\<lambda>kv. fst kv = name) prims)))))
          (remdups (map fst prims)))"

text \<open>Modelled from the spec: the timeslice path (section 4.3, steps 5 and 6): the
  updates "must be present and non-empty - else \<open>Incomplete\<close> with a message citing the
  missing/empty field by name; each update entry must resolve a timestamp ... else
  \<open>Incomplete\<close> citing missing timestamp in updates". The wording of the three messages
  is the one the tests match.\<close>

definition parseTimeslice :: "XVIZConfig \<Rightarrow> nat \<Rightarrow> Message \<Rightarrow> Canonical" where
  "parseTimeslice cfg v m =
     (case updatesOf v m of
        None \<Rightarrow> Incomplete (''Missing required '' @ quoted (updatesField v))
      | Some [] \<Rightarrow> Incomplete (quoted (updatesField v) @ '' has length of 0'')
      | Some us \<Rightarrow>
          (if list_all (\<lambda>u. resolveTimestamp cfg m u \<noteq> None) us then
             (case frameTimestamp cfg m us of
                Some t \<Rightarrow> Timeslice t (frameStreams us)
              | None \<Rightarrow> Incomplete (''Missing timestamp in '' @ quoted (updatesField v)))
           else Incomplete (''Missing timestamp in '' @ quoted (updatesField v))))"

text \<open>Modelled from the spec: \<open>parseStreamLogData\<close>, the state machine of section 4.3 for
  a bare message: version detection, version support check, dispatch. A thrown error is
  \<open>Inl\<close>; the result comes with the config as the call leaves it (a metadata message
  sets \<open>currentMajorVersion\<close>); a message of no known sub-type gives no result.\<close>

definition parseStreamLogData ::
  "XVIZConfig \<Rightarrow> Message \<Rightarrow> ParseError + (Canonical option \<times> XVIZConfig)" where
  "parseStreamLogData cfg m =
     (case detectVersion cfg (version m) of
        Inl e \<Rightarrow> Inl e
      | Inr detected \<Rightarrow>
          (case checkSupported cfg detected of
             Inl e \<Rightarrow> Inl e
           | Inr v \<Rightarrow>
               (case subTypeOf m of
                  None \<Rightarrow> Inr (None, cfg)
                | Some MetadataType \<Rightarrow> Inr (Some (Metadata v), cfg\<lparr>currentMajorVersion := v\<rparr>)
                | Some StateUpdateType \<Rightarrow> Inr (Some (parseTimeslice cfg v m), cfg)
                | Some ErrorType \<Rightarrow> Inr (Some (Error (errorText m)), cfg)
                | Some TransformLogDoneType \<Rightarrow> Inr (Some (Done (doneId m)), cfg))))"

section \<open>Values used in the examples\<close>

text \<open>The \<open>object.map\<close> of line 48 in general form: a function applied to each element
  in turn, the builder handed from one call to the next, the first error ending the walk.\<close>

fun mapThread ::
  "(json \<Rightarrow> 's \<Rightarrow> error + (json \<times> 's)) \<Rightarrow> json list \<Rightarrow> 's \<Rightarrow> error + (json list \<times> 's)" where
  "mapThread f [] st = Inr ([], st)"
| "mapThread f (x # rest) st =
     (case f x st of
        Inl e \<Rightarrow> Inl e
      | Inr (y, st') \<Rightarrow>
          (case mapThread f rest st' of Inl e \<Rightarrow> Inl e | Inr (ys, st'') \<Rightarrow> Inr (y # ys, st'')))"

text \<open>A builder that takes no typed array for an image, with nothing added yet.\<close>

definition noImage :: "TypedArray \<Rightarrow> bool" where
  "noImage a = False"

definition emptyBuilder :: GLTFBuilder where
  "emptyBuilder = \<lparr>isImage = noImage, buffers = [], images = []\<rparr>"

text \<open>The point primitive of \<open>TestTimesliceMessageV2\<close> (tests, lines 172-180).\<close>

definition testPoint :: PointEntry where
  "testPoint = \<lparr>objectId = Some ''1234'',
                 points = JArr [JArr [JNum 1000, JNum 1000, JNum 200]],
                 colors = None, color = None\<rparr>"

text \<open>A sender built with \<open>{format: 'BINARY'}\<close>, one built with \<open>{format: null}\<close> and
  one built with \<open>{format: 'OBJECT'}\<close>; a binary frame and a JSON string whose object was
  never materialized, and data that came in as an object.\<close>

definition binarySender :: XVIZWebsocketSender where
  "binarySender =
     \<lparr>senderOptions = \<lparr>format = Format BINARY, socketFormatPreference = Undefined,
                        compress = None\<rparr>,
      defaultFormat = Undefined, senderFormat = Format BINARY, writer = None\<rparr>"

definition nullSender :: XVIZWebsocketSender where
  "nullSender =
     \<lparr>senderOptions = \<lparr>format = Null, socketFormatPreference = Format JSON_STRING,
                        compress = None\<rparr>,
      defaultFormat = Format JSON_STRING, senderFormat = Null, writer = None\<rparr>"

definition objectSender :: XVIZWebsocketSender where
  "objectSender =
     \<lparr>senderOptions = \<lparr>format = Format OBJECT, socketFormatPreference = Undefined,
                        compress = None\<rparr>,
      defaultFormat = Undefined, senderFormat = Format OBJECT, writer = None\<rparr>"

definition binaryFrame :: XVIZData where
  "binaryFrame = \<lparr>dataFormat = BINARY, hasMessage = False, buffer = ByteBuffer [103, 108, 84, 70]\<rparr>"

definition jsonFrame :: XVIZData where
  "jsonFrame = \<lparr>dataFormat = JSON_STRING, hasMessage = False, buffer = StringBuffer ''{}''\<rparr>"

definition objectFrame :: XVIZData where
  "objectFrame = \<lparr>dataFormat = OBJECT, hasMessage = False, buffer = ObjectBuffer (JObj [])\<rparr>"

text \<open>The config of the tests (\<open>currentMajorVersion = 2\<close>), and \<open>TestTimesliceMessageV2\<close>
  (tests, lines 155-186) parsed as a \<open>state_update\<close>.\<close>

definition testConfig :: XVIZConfig where
  "testConfig = \<lparr>currentMajorVersion = 2, supportedVersions = [2],
                  PRIMARY_POSE_STREAM = ''/vehicle_pose''\<rparr>"

definition emptyMessage :: Message where
  "emptyMessage = \<lparr>version = None, declaredType = None, log_info = False, streams = False,
                    timestamp = None, updates = None, state_updates = None,
                    vehicle_pose = None, errorText = [], doneId = []\<rparr>"

definition testPose :: Pose where
  "testPose = \<lparr>poseTimestamp = Some 1001\<rparr>"

definition testUpdate :: Update where
  "testUpdate = \<lparr>updateTimestamp = Some 1001, poses = [(''/vehicle_pose'', testPose)],
                  pointPrimitives = [(''/test/stream'', [testPoint])]\<rparr>"

definition testTimeslice :: Message where
  "testTimeslice =
     emptyMessage\<lparr>declaredType := Some ''state_update'', updates := Some [testUpdate]\<rparr>"

text \<open>An update whose poses disagree: the first has no timestamp, the next two have
  different ones.\<close>

definition threePoses :: Update where
  "threePoses = \<lparr>updateTimestamp = Some 9,
                  poses = [(''/a'', \<lparr>poseTimestamp = None\<rparr>),
                           (''/b'', \<lparr>poseTimestamp = Some 5\<rparr>),
                           (''/c'', \<lparr>poseTimestamp = Some 7\<rparr>)],
                  pointPrimitives = []\<rparr>"

text \<open>A tree with nested vertices, colors, a string that looks like a pointer, an array
  of objects and an image; an image test that looks for the first bytes of a PNG; and the
  container the tree is encoded to.\<close>

definition sampleTree :: json where
  "sampleTree = JObj
     [(''vertices'', JArr [JArr [JNum 1, JNum 2, JNum 3], JArr [JNum 4, JNum 5, JNum 6]]),
      (''colors'', JArr [JArr [JNum 0, JNum 0, JNum 255, JNum 255]]),
      (''label'', JStr ''#/accessors/0''),
      (''list'', JArr [JObj [(''points'', JArr [JNum 7, JNum 8, JNum 9])], JNum 1, JNull]),
      (''image'', JTyped (TypedArray Uint8Array [137, 80, 78, 71]))]"

definition isPng :: "TypedArray \<Rightarrow> bool" where
  "isPng a = (case a of TypedArray t ns \<Rightarrow> take 4 ns = [137, 80, 78, 71])"

definition sampleContainer :: Container where
  "sampleContainer =
     \<lparr>skeleton = JObj
        [(''vertices'', JStr ''#/accessors/0''),
         (''colors'', JStr ''#/accessors/1''),
         (''label'', JStr ''##/accessors/0''),
         (''list'', JArr [JObj [(''points'', JStr ''#/accessors/2'')], JNum 1, JNull]),
         (''image'', JStr ''#/images/0'')],
      accessors = [(TypedArray Float32Array [1, 2, 3, 4, 5, 6], 3),
                   (TypedArray Uint8Array [0, 0, 255, 255], 4),
                   (TypedArray Float32Array [7, 8, 9], 3)],
      imageBuffers = [TypedArray Uint8Array [137, 80, 78, 71]]\<rparr>"

text \<open>A tree with one nested vertex; a tree with a string that looks like a pointer
  among its \<open>points\<close>; and a tree with such strings in an object inside an array and in
  the array itself, beside a string of another shape, with the skeleton it is packed to.\<close>

definition nestedVertex :: json where
  "nestedVertex = JObj [(''vertices'', JArr [JArr [JNum 1, JNum 2, JNum 3]])]"

definition pointsWithString :: json where
  "pointsWithString = JObj [(''points'', JArr [JStr ''#/a''])]"



section \<open>Properties of the codec\<close>

lemma showNat_0: "showNat 0 = ''0''"
  by code_simp

lemma showNat_1: "showNat 1 = ''1''"
  by code_simp

lemma flattenObject_no_key:
  "key \<noteq> KeyStr ''vertices'' \<Longrightarrow> key \<noteq> KeyStr ''points'' \<Longrightarrow> key \<noteq> KeyStr ''colors''
   \<Longrightarrow> flattenObject F key xs = Inr None"
  by (simp add: flattenObject_def)

lemma flattenObject_colors_empty: "flattenObject F (KeyStr ''colors'') [] = Inl TypeError"
  by (simp add: flattenObject_def)

lemma packBinaryJson_key_irrelevant:
  assumes "key \<noteq> KeyStr ''vertices''" "key \<noteq> KeyStr ''points''" "key \<noteq> KeyStr ''colors''"
  shows "packBinaryJson F x b key opts = packBinaryJson F x b KeyNull opts"
  using assms by (cases x) (simp_all add: flattenObject_no_key)

lemma packElements_mapThread:
  "packElements F xs b opts =
     mapThread (\<lambda>e g. packBinaryJson F e g (KeyOptions opts) defaultOptions) xs b"
  by (induction xs arbitrary: b) (simp_all split: sum.splits prod.splits)

lemma packElements_mapThread_null:
  "packElements F xs b opts =
     mapThread (\<lambda>e g. packBinaryJson F e g KeyNull defaultOptions) xs b"
  by (simp add: packElements_mapThread packBinaryJson_key_irrelevant[where key="KeyOptions opts"])

text \<open>
  C10. In \<open>packBinaryJson\<close>, an array whose key triggers no flattening (any key other than
  \<open>vertices\<close>, \<open>points\<close>, \<open>colors\<close>) is packed element by element, and each element is
  packed with the caller's options object in the \<open>objectKey\<close> position and with the
  default options: the result is the same as packing each element with no key and the
  default options, whatever \<open>flattenArrays\<close> the caller passed.
\<close>

theorem array_elements_packed_with_default_options:
  assumes "key \<noteq> KeyStr ''vertices''" "key \<noteq> KeyStr ''points''" "key \<noteq> KeyStr ''colors''"
  shows "packBinaryJson F (JArr xs) b key opts =
           (case mapThread (\<lambda>e g. packBinaryJson F e g (KeyOptions opts) defaultOptions) xs b of
              Inl e \<Rightarrow> Inl e | Inr (ys, b') \<Rightarrow> Inr (JArr ys, b'))
       \<and> packBinaryJson F (JArr xs) b key opts =
           (case mapThread (\<lambda>e g. packBinaryJson F e g KeyNull defaultOptions) xs b of
              Inl e \<Rightarrow> Inl e | Inr (ys, b') \<Rightarrow> Inr (JArr ys, b'))"
proof -
  have walk: "packBinaryJson F (JArr xs) b key opts =
      (case packElements F xs b opts of Inl e \<Rightarrow> Inl e | Inr (ys, b') \<Rightarrow> Inr (JArr ys, b'))"
    using assms by (simp add: flattenObject_no_key)
  show ?thesis
  proof
    show "packBinaryJson F (JArr xs) b key opts =
           (case mapThread (\<lambda>e g. packBinaryJson F e g (KeyOptions opts) defaultOptions) xs b of
              Inl e \<Rightarrow> Inl e | Inr (ys, b') \<Rightarrow> Inr (JArr ys, b'))"
      unfolding walk by (simp only: packElements_mapThread)
    show "packBinaryJson F (JArr xs) b key opts =
           (case mapThread (\<lambda>e g. packBinaryJson F e g KeyNull defaultOptions) xs b of
              Inl e \<Rightarrow> Inl e | Inr (ys, b') \<Rightarrow> Inr (JArr ys, b'))"
      unfolding walk by (simp only: packElements_mapThread_null)
  qed
qed

text \<open>The caller passes \<open>flattenArrays = false\<close>; the \<open>vertices\<close> of an object inside the
  array \<open>list\<close> are flattened all the same.\<close>

theorem array_elements_packed_with_default_options_witness:
  "KeyStr ''list'' \<noteq> KeyStr ''vertices'' \<and> KeyStr ''list'' \<noteq> KeyStr ''points''
   \<and> KeyStr ''list'' \<noteq> KeyStr ''colors''
   \<and> packBinaryJson flattenToTypedArray
        (JArr [JObj [(''vertices'', JArr [JArr [JNum 1, JNum 2, JNum 3]])]])
        (Some emptyBuilder) (KeyStr ''list'') \<lparr>flattenArrays = Some False\<rparr>
      = Inr (JArr [JObj [(''vertices'', JStr ''#/accessors/0'')]],
             Some (emptyBuilder\<lparr>buffers := [(TypedArray Float32Array [1, 2, 3], 3)]\<rparr>))"
  using array_elements_packed_with_default_options
    [of "KeyStr ''list''" flattenToTypedArray
        "[JObj [(''vertices'', JArr [JArr [JNum 1, JNum 2, JNum 3]])]]"
        "Some emptyBuilder" "\<lparr>flattenArrays = Some False\<rparr>"]
  by (simp add: flattenObject_def flattenToTypedArray_def defaultOptions_def emptyBuilder_def
      packBinaryJsonTypedArray_def addBuffer_def noImage_def showNat_0)

lemma digit_ok: "d < 10 \<Longrightarrow> isDigit (digit d) \<and> (of_char (digit d) :: nat) - 48 = d"
  by (simp add: isDigit_def digit_def)

lemma parse_show_aux:
  "list_all isDigit (showNat n) \<and> showNat n \<noteq> []
   \<and> foldl (\<lambda>a c. 10 * a + (of_char c - 48)) 0 (showNat n) = n"
proof (induction n rule: showNat.induct)
  case (1 n)
  show ?case
  proof (cases "n < 10")
    case True
    then show ?thesis using digit_ok[of n] by (subst (1 2 3) showNat.simps) simp
  next
    case False
    have d: "n mod 10 < 10" by simp
    from False 1 digit_ok[OF d] show ?thesis
      by (subst (1 2 3) showNat.simps) simp
  qed
qed

lemma parseNat_showNat: "parseNat (showNat n) = Some n"
  using parse_show_aux[of n] by (simp add: parseNat_def)

lemma unpackString_accessor:
  "n < length bufs \<Longrightarrow>
   unpackString bufs imgs (''#/accessors/'' @ showNat n) = Inr (JTyped (fst (bufs ! n)))"
  by (simp add: unpackString_def pointerIndex_def stripPrefix_def parseNat_showNat)

lemma unpackString_image:
  "n < length imgs \<Longrightarrow>
   unpackString bufs imgs (''#/images/'' @ showNat n) = Inr (JTyped (imgs ! n))"
  by (simp add: unpackString_def pointerIndex_def stripPrefix_def parseNat_showNat)

lemma unpackString_escaped:
  "prefix ''#/'' s \<Longrightarrow> unpackString bufs imgs (CHR ''#'' # s) = Inr (JStr s)"
  by (auto simp: unpackString_def pointerIndex_def stripPrefix_def prefix_def)

lemma unpackString_plain:
  "\<not> prefix ''#/'' s \<Longrightarrow> \<not> prefix ''##/'' s \<Longrightarrow> unpackString bufs imgs s = Inr (JStr s)"
  by (auto simp: unpackString_def pointerIndex_def stripPrefix_def prefix_def)

lemma nth_prefix: "prefix xs ys \<Longrightarrow> n < length xs \<Longrightarrow> ys ! n = xs ! n"
  by (auto simp: prefix_def nth_append)

lemma length_prefix: "prefix xs ys \<Longrightarrow> n < length xs \<Longrightarrow> n < length ys"
  by (auto simp: prefix_def)

lemma unpackString_mono:
  assumes "prefix bufs bufs'" "prefix imgs imgs'" "unpackString bufs imgs s = Inr t"
  shows "unpackString bufs' imgs' s = Inr t"
  using assms
  by (auto simp: unpackString_def nth_prefix length_prefix split: option.splits if_splits)

lemma unpack_mono:
  "prefix bufs bufs' \<Longrightarrow> prefix imgs imgs' \<Longrightarrow>
     (\<forall>t. unpackBinaryJson bufs imgs sk = Inr t \<longrightarrow> unpackBinaryJson bufs' imgs' sk = Inr t)"
  "prefix bufs bufs' \<Longrightarrow> prefix imgs imgs' \<Longrightarrow>
     (\<forall>ts. unpackElements bufs imgs sks = Inr ts \<longrightarrow> unpackElements bufs' imgs' sks = Inr ts)"
  "prefix bufs bufs' \<Longrightarrow> prefix imgs imgs' \<Longrightarrow>
     (\<forall>fs. unpackFields bufs imgs kvs = Inr fs \<longrightarrow> unpackFields bufs' imgs' kvs = Inr fs)"
proof (induction bufs imgs sk and bufs imgs sks and bufs imgs kvs
       rule: unpackBinaryJson_unpackElements_unpackFields.induct)
  case (1 bufs imgs s)
  then show ?case by (auto intro: unpackString_mono)
qed (auto split: sum.splits)


lemma grows_refl: "grows b b"
  by (simp add: grows_def)

lemma grows_trans: "grows a b \<Longrightarrow> grows b c \<Longrightarrow> grows a c"
  by (auto simp: grows_def)

lemma keyName_eq: "keyName key = Some k \<longleftrightarrow> key = KeyStr k"
  by (cases key) (auto simp: keyName_def)

lemma flattenPolicy_flattened:
  "flattenObject F key xs = Inr (Some (ta, sz)) \<Longrightarrow>
     flattenPolicy F (keyName key) (JArr xs) = map_option JTyped ta"
  by (auto simp: flattenObject_def keyName_eq colorStride_def Let_def
      split: if_splits list.splits sum.splits)

lemma flattenPolicy_elementwise:
  "flattenObject F key xs = Inr None \<Longrightarrow>
     flattenPolicy F (keyName key) (JArr xs) = map_option JArr (flattenPolicyElements F xs)"
  by (auto simp: flattenObject_def keyName_eq Let_def split: if_splits list.splits sum.splits)

lemma packTyped_roundtrip:
  assumes "packBinaryJsonTypedArray b a info = (p, b1)"
  shows "grows b b1 \<and> unpackBinaryJson (buffers b1) (images b1) p = Inr (JTyped a)"
proof (cases "isImage b a")
  case True
  with assms have p: "p = JStr (''#/images/'' @ showNat (length (images b)))"
    and b1: "b1 = b\<lparr>images := images b @ [a]\<rparr>"
    by (auto simp: packBinaryJsonTypedArray_def addImage_def)
  show ?thesis
    unfolding p b1 using unpackString_image[of "length (images b)" "images b @ [a]" "buffers b"]
    by (simp add: grows_def)
next
  case False
  with assms obtain sz where p: "p = JStr (''#/accessors/'' @ showNat (length (buffers b)))"
    and b1: "b1 = b\<lparr>buffers := buffers b @ [(a, sz)]\<rparr>"
    by (auto simp: packBinaryJsonTypedArray_def addBuffer_def Let_def)
  show ?thesis
    unfolding p b1
    using unpackString_accessor[of "length (buffers b)" "buffers b @ [(a, sz)]" "images b"]
    by (simp add: grows_def)
qed

lemma unpack_grows:
  assumes "grows b1 b2" "unpackBinaryJson (buffers b1) (images b1) sk = Inr t"
  shows "unpackBinaryJson (buffers b2) (images b2) sk = Inr t"
  using assms unpack_mono(1)[of "buffers b1" "buffers b2" "images b1" "images b2" sk]
  by (simp add: grows_def)

lemma pack_roundtrip:
  "\<forall>b t'. g = Some b \<longrightarrow> opts = defaultOptions \<longrightarrow> noEscapedLiteral t \<longrightarrow>
     flattenPolicy F (keyName key) t = Some t' \<longrightarrow>
     (\<forall>sk g'. packBinaryJson F t g key opts = Inr (sk, g') \<longrightarrow>
        (\<exists>b1. g' = Some b1 \<and> grows b b1
           \<and> unpackBinaryJson (buffers b1) (images b1) sk = Inr t'))"
  "\<forall>b ts'. g = Some b \<longrightarrow> opts = defaultOptions \<longrightarrow> noEscapedLiteralElements xs \<longrightarrow>
     flattenPolicyElements F xs = Some ts' \<longrightarrow>
     (\<forall>sks g'. packElements F xs g opts = Inr (sks, g') \<longrightarrow>
        (\<exists>b1. g' = Some b1 \<and> grows b b1
           \<and> unpackElements (buffers b1) (images b1) sks = Inr ts'))"
  "\<forall>b fs'. g = Some b \<longrightarrow> opts = defaultOptions \<longrightarrow> noEscapedLiteralFields kvs \<longrightarrow>
     flattenPolicyFields F kvs = Some fs' \<longrightarrow>
     (\<forall>sks g'. packFields F kvs g opts = Inr (sks, g') \<longrightarrow>
        (\<exists>b1. g' = Some b1 \<and> grows b b1
           \<and> unpackFields (buffers b1) (images b1) sks = Inr fs'))"
proof (induction F t g key opts and F xs g opts and F kvs g opts
       rule: packBinaryJson_packElements_packFields.induct)
  case (1 flatten s gltfBuilder objectKey opts)
  show ?case
    by (auto simp: grows_refl unpackString_escaped unpackString_plain)
next
  case (2 flatten xs gltfBuilder objectKey opts)
  show ?case
  proof (intro allI impI)
    fix b t' sk g'
    assume g: "gltfBuilder = Some b" and o: "opts = defaultOptions"
      and ne: "noEscapedLiteral (JArr xs)"
      and fp: "flattenPolicy flatten (keyName objectKey) (JArr xs) = Some t'"
      and pk: "packBinaryJson flatten (JArr xs) gltfBuilder objectKey opts = Inr (sk, g')"
    have fa: "flattenArrays opts \<noteq> Some False" using o by (simp add: defaultOptions_def)
    show "\<exists>b1. g' = Some b1 \<and> grows b b1 \<and>
            unpackBinaryJson (buffers b1) (images b1) sk = Inr t'"
    proof (cases "flattenObject flatten objectKey xs")
      case (Inl e)
      with pk fa show ?thesis by simp
    next
      case (Inr r)
      show ?thesis
      proof (cases r)
        case None
        with Inr pk fa obtain ys where ys: "packElements flatten xs gltfBuilder opts = Inr (ys, g')"
          and sk: "sk = JArr ys"
          by (auto split: sum.splits)
        have pol: "flattenPolicy flatten (keyName objectKey) (JArr xs)
            = map_option JArr (flattenPolicyElements flatten xs)"
          using flattenPolicy_elementwise[of flatten objectKey xs] Inr None by simp
        from fp[unfolded pol] obtain ts' where ts: "flattenPolicyElements flatten xs = Some ts'"
          and t': "t' = JArr ts'"
          by auto
        from "2.IH" fa Inr None g o ne ys ts
        obtain b1 where "g' = Some b1" "grows b b1"
          "unpackElements (buffers b1) (images b1) ys = Inr ts'"
          by auto
        then show ?thesis
          unfolding sk t' by simp
      next
        case (Some pr)
        obtain ta sz where pr: "pr = (ta, sz)" by (cases pr)
        have pol: "flattenPolicy flatten (keyName objectKey) (JArr xs) = map_option JTyped ta"
          using flattenPolicy_flattened[of flatten objectKey xs ta sz] Inr Some pr by simp
        from fp[unfolded pol] obtain a where a: "ta = Some a" and t': "t' = JTyped a"
          by auto
        from pk fa Inr \<open>r = Some pr\<close> pr g a
        obtain p b1 where "packBinaryJsonTypedArray b a (Some sz) = (p, b1)"
          "sk = p" "g' = Some b1"
          by (auto split: prod.splits)
        then show ?thesis
          unfolding t' using packTyped_roundtrip[of b a "Some sz" p b1]
          by simp
      qed
    qed
  qed
next
  case (3 flatten a gltfBuilder objectKey opts)
  show ?case
    by (auto split: prod.splits dest: packTyped_roundtrip)
next
  case (4 flatten kvs gltfBuilder objectKey opts)
  show ?case
  proof (intro allI impI)
    fix b t' sk g'
    assume g: "gltfBuilder = Some b" and o: "opts = defaultOptions"
      and ne: "noEscapedLiteral (JObj kvs)"
      and fp: "flattenPolicy flatten (keyName objectKey) (JObj kvs) = Some t'"
      and pk: "packBinaryJson flatten (JObj kvs) gltfBuilder objectKey opts = Inr (sk, g')"
    from pk obtain ys where ys: "packFields flatten kvs gltfBuilder opts = Inr (ys, g')"
      and sk: "sk = JObj ys"
      by (auto split: sum.splits)
    from fp obtain fs' where fs: "flattenPolicyFields flatten kvs = Some fs'"
      and t': "t' = JObj fs'"
      by auto
    from "4.IH" g o ne ys fs
    obtain b1 where "g' = Some b1" "grows b b1"
      "unpackFields (buffers b1) (images b1) ys = Inr fs'"
      by auto
    then show "\<exists>b1. g' = Some b1 \<and> grows b b1 \<and>
            unpackBinaryJson (buffers b1) (images b1) sk = Inr t'"
      unfolding sk t' by simp
  qed
next
  case (9 flatten element rest gltfBuilder opts)
  show ?case
  proof (intro allI impI)
    fix b ts' sks g'
    assume g: "gltfBuilder = Some b" and o: "opts = defaultOptions"
      and ne: "noEscapedLiteralElements (element # rest)"
      and fp: "flattenPolicyElements flatten (element # rest) = Some ts'"
      and pk: "packElements flatten (element # rest) gltfBuilder opts = Inr (sks, g')"
    from pk obtain y g1 ys where
      h: "packBinaryJson flatten element gltfBuilder (KeyOptions opts) defaultOptions = Inr (y, g1)"
      and t: "packElements flatten rest g1 opts = Inr (ys, g')" and sks: "sks = y # ys"
      by (auto split: sum.splits prod.splits)
    from fp obtain e' r' where e': "flattenPolicy flatten None element = Some e'"
      and r': "flattenPolicyElements flatten rest = Some r'" and ts': "ts' = e' # r'"
      by (auto split: option.splits)
    from "9.IH"(1) g ne h e' obtain b1 where b1: "g1 = Some b1" "grows b b1"
      and u1: "unpackBinaryJson (buffers b1) (images b1) y = Inr e'"
      by (auto simp: keyName_def)
    from "9.IH"(2)[OF h refl] b1 o ne t r' obtain b2 where b2: "g' = Some b2" "grows b1 b2"
      and u2: "unpackElements (buffers b2) (images b2) ys = Inr r'"
      by auto
    have "unpackBinaryJson (buffers b2) (images b2) y = Inr e'"
      using unpack_grows[OF b2(2) u1] .
    with u2 b1 b2 sks ts' show "\<exists>b1. g' = Some b1 \<and> grows b b1 \<and>
        unpackElements (buffers b1) (images b1) sks = Inr ts'"
      by (auto intro: grows_trans)
  qed
next
  case (11 flatten key v rest gltfBuilder opts)
  show ?case
  proof (intro allI impI)
    fix b fs' sks g'
    assume g: "gltfBuilder = Some b" and o: "opts = defaultOptions"
      and ne: "noEscapedLiteralFields ((key, v) # rest)"
      and fp: "flattenPolicyFields flatten ((key, v) # rest) = Some fs'"
      and pk: "packFields flatten ((key, v) # rest) gltfBuilder opts = Inr (sks, g')"
    from pk obtain y g1 ys where
      h: "packBinaryJson flatten v gltfBuilder (KeyStr key) opts = Inr (y, g1)"
      and t: "packFields flatten rest g1 opts = Inr (ys, g')" and sks: "sks = (key, y) # ys"
      by (auto split: sum.splits prod.splits)
    from fp obtain v' r' where v': "flattenPolicy flatten (Some key) v = Some v'"
      and r': "flattenPolicyFields flatten rest = Some r'" and fs': "fs' = (key, v') # r'"
      by (auto split: option.splits)
    from "11.IH"(1) g o ne h v' obtain b1 where b1: "g1 = Some b1" "grows b b1"
      and u1: "unpackBinaryJson (buffers b1) (images b1) y = Inr v'"
      by (auto simp: keyName_def)
    from "11.IH"(2)[OF h refl] b1 o ne t r' obtain b2 where b2: "g' = Some b2" "grows b1 b2"
      and u2: "unpackFields (buffers b2) (images b2) ys = Inr r'"
      by auto
    have "unpackBinaryJson (buffers b2) (images b2) y = Inr v'"
      using unpack_grows[OF b2(2) u1] .
    with u2 b1 b2 sks fs' show "\<exists>b1. g' = Some b1 \<and> grows b b1 \<and>
        unpackFields (buffers b1) (images b1) sks = Inr fs'"
      by (auto intro: grows_trans)
  qed
qed (auto simp: grows_refl)

lemma lengthIs4_total: "x \<noteq> JNull \<Longrightarrow> \<exists>four. lengthIs4 x = Inr four"
  by (cases x rule: lengthIs4.cases) auto

lemma flattenObject_total:
  assumes "encodable (keyName key) (JArr xs)"
  shows "\<exists>r. flattenObject F key xs = Inr r"
proof (cases "key = KeyStr ''colors''")
  case True
  with assms obtain x rest where xs: "xs = x # rest" and x: "x \<noteq> JNull"
    by (cases xs) (auto simp: keyName_def)
  from lengthIs4_total [OF x] obtain four where "lengthIs4 x = Inr four" ..
  then show ?thesis
    by (simp add: flattenObject_def True xs)
next
  case False
  then show ?thesis
    by (simp add: flattenObject_def)
qed

lemma pack_total:
  "opts = defaultOptions \<longrightarrow> encodable (keyName key) t \<longrightarrow>
     (\<exists>sk g'. packBinaryJson F t g key opts = Inr (sk, g'))"
  "opts = defaultOptions \<longrightarrow> encodableElements xs \<longrightarrow>
     (\<exists>sks g'. packElements F xs g opts = Inr (sks, g'))"
  "opts = defaultOptions \<longrightarrow> encodableFields kvs \<longrightarrow>
     (\<exists>sks g'. packFields F kvs g opts = Inr (sks, g'))"
proof (induction F t g key opts and F xs g opts and F kvs g opts
       rule: packBinaryJson_packElements_packFields.induct)
  case (2 flatten xs gltfBuilder objectKey opts)
  show ?case
  proof (intro impI)
    assume o: "opts = defaultOptions" and en: "encodable (keyName objectKey) (JArr xs)"
    have fa: "flattenArrays opts \<noteq> Some False" using o by (simp add: defaultOptions_def)
    from flattenObject_total[OF en] obtain r where r: "flattenObject flatten objectKey xs = Inr r"
      by blast
    show "\<exists>sk g'. packBinaryJson flatten (JArr xs) gltfBuilder objectKey opts = Inr (sk, g')"
    proof (cases r)
      case None
      then have "encodableElements xs"
        using en r by (auto simp: flattenObject_def keyName_eq Let_def split: if_splits list.splits sum.splits)
      with "2.IH" fa r None o show ?thesis
        by (auto split: sum.splits)
    next
      case (Some pr)
      with fa r show ?thesis
        by (auto split: option.splits prod.splits)
    qed
  qed
next
  case (9 flatten element rest gltfBuilder opts)
  show ?case
  proof (intro impI)
    assume o: "opts = defaultOptions" and en: "encodableElements (element # rest)"
    from "9.IH"(1) en obtain y g1 where
      h: "packBinaryJson flatten element gltfBuilder (KeyOptions opts) defaultOptions = Inr (y, g1)"
      by (auto simp: keyName_def)
    from "9.IH"(2)[OF h refl] o en obtain ys g2 where "packElements flatten rest g1 opts = Inr (ys, g2)"
      by auto
    with h show "\<exists>sks g'. packElements flatten (element # rest) gltfBuilder opts = Inr (sks, g')"
      by simp
  qed
next
  case (11 flatten key v rest gltfBuilder opts)
  show ?case
  proof (intro impI)
    assume o: "opts = defaultOptions" and en: "encodableFields ((key, v) # rest)"
    from "11.IH"(1) o en obtain y g1 where
      h: "packBinaryJson flatten v gltfBuilder (KeyStr key) opts = Inr (y, g1)"
      by (auto simp: keyName_def)
    from "11.IH"(2)[OF h refl] o en obtain ys g2 where "packFields flatten rest g1 opts = Inr (ys, g2)"
      by auto
    with h show "\<exists>sks g'. packFields flatten ((key, v) # rest) gltfBuilder opts = Inr (sks, g')"
      by simp
  qed
qed (auto split: option.splits prod.splits sum.splits)

lemma showNat_Suc: "showNat (Suc 0) = ''1''" "showNat (Suc (Suc 0)) = ''2''"
  by code_simp+

lemma sampleTree_encoded: "encode flattenToTypedArray isPng sampleTree = Inr sampleContainer"
  by (simp add: encode_def sampleTree_def sampleContainer_def flattenObject_def
      flattenToTypedArray_def defaultOptions_def packBinaryJsonTypedArray_def addBuffer_def
      addImage_def isPng_def showNat_0 showNat_Suc)

text \<open>
  C1, as amended. For every JSON-compatible tree whose arrays under the keys \<open>vertices\<close>,
  \<open>points\<close> and \<open>colors\<close> are numeric arrays (the flattening helper returns a buffer for
  each of them), which holds no string value beginning with \<open>##/\<close> and whose \<open>colors\<close>
  arrays have a first element that is not null, encoding succeeds, and decoding the
  container it produces yields the tree in which every array under the key \<open>vertices\<close> or
  \<open>points\<close> is replaced by its flattened 32-bit float buffer (3 components per record) and
  every array under \<open>colors\<close> by its flattened 8-bit unsigned buffer (4 components per
  record when the first element has length 4, otherwise 3); every other value is equal to
  the original, position for position.
\<close>

theorem roundtrip_yields_flattened_tree:
  assumes "flattenPolicy F None t = Some t'" and "noEscapedLiteral t" and "encodable None t"
  shows "\<exists>c. encode F img t = Inr c \<and> decode c = Inr t'"
proof -
  let ?b = "\<lparr>isImage = img, buffers = [], images = []\<rparr>"
  from pack_total(1) [of defaultOptions KeyNull t F "Some ?b"] assms(3)
  obtain sk g' where pk: "packBinaryJson F t (Some ?b) KeyNull defaultOptions = Inr (sk, g')"
    by (auto simp: keyName_def)
  from pack_roundtrip(1) [of "Some ?b" defaultOptions t F KeyNull] assms(1,2) pk
  obtain b1 where "g' = Some b1"
    and "unpackBinaryJson (buffers b1) (images b1) sk = Inr t'"
    by (auto simp: keyName_def)
  with pk show ?thesis
    by (simp add: encode_def decode_def)
qed

theorem roundtrip_yields_flattened_tree_witness:
  "flattenPolicy flattenToTypedArray None sampleTree = Some (JObj
     [(''vertices'', JTyped (TypedArray Float32Array [1, 2, 3, 4, 5, 6])),
      (''colors'', JTyped (TypedArray Uint8Array [0, 0, 255, 255])),
      (''label'', JStr ''#/accessors/0''),
      (''list'', JArr [JObj [(''points'', JTyped (TypedArray Float32Array [7, 8, 9]))],
                       JNum 1, JNull]),
      (''image'', JTyped (TypedArray Uint8Array [137, 80, 78, 71]))])
   \<and> noEscapedLiteral sampleTree \<and> encodable None sampleTree
   \<and> encode flattenToTypedArray isPng sampleTree = Inr sampleContainer
   \<and> decode sampleContainer = Inr (JObj
     [(''vertices'', JTyped (TypedArray Float32Array [1, 2, 3, 4, 5, 6])),
      (''colors'', JTyped (TypedArray Uint8Array [0, 0, 255, 255])),
      (''label'', JStr ''#/accessors/0''),
      (''list'', JArr [JObj [(''points'', JTyped (TypedArray Float32Array [7, 8, 9]))],
                       JNum 1, JNull]),
      (''image'', JTyped (TypedArray Uint8Array [137, 80, 78, 71]))])"
  using roundtrip_yields_flattened_tree [of flattenToTypedArray sampleTree _ isPng]
  by (simp add: sampleTree_encoded)
     (simp add: sampleTree_def flattenToTypedArray_def colorStride_def)

text \<open>The claim as stated asks, for every tree, for a decoded tree that is equal to the
  original up to the numeric type of its arrays. On a tree with one nested vertex the
  decoded tree holds a flat buffer of three numbers where the original holds an array of
  one triple: the two differ even when typed arrays are read as plain arrays of numbers.
  The strings \<open>#/a\<close> and \<open>##/a\<close> are encoded to the same container, so decoding gives the
  original back for one of them at most; the decoder gives \<open>#/a\<close>. And a tree with an
  empty \<open>colors\<close> array is not encoded at all.\<close>

theorem roundtrip_changes_nesting_and_merges_strings:
  "encode flattenToTypedArray noImage nestedVertex
     = Inr \<lparr>skeleton = JObj [(''vertices'', JStr ''#/accessors/0'')],
            accessors = [(TypedArray Float32Array [1, 2, 3], 3)], imageBuffers = []\<rparr>
   \<and> decode \<lparr>skeleton = JObj [(''vertices'', JStr ''#/accessors/0'')],
              accessors = [(TypedArray Float32Array [1, 2, 3], 3)], imageBuffers = []\<rparr>
     = Inr (JObj [(''vertices'', JTyped (TypedArray Float32Array [1, 2, 3]))])
   \<and> eraseTypes (JObj [(''vertices'', JTyped (TypedArray Float32Array [1, 2, 3]))])
       = JObj [(''vertices'', JArr [JNum 1, JNum 2, JNum 3])]
   \<and> eraseTypes nestedVertex
       = JObj [(''vertices'', JArr [JArr [JNum 1, JNum 2, JNum 3]])]
   \<and> eraseTypes (JObj [(''vertices'', JTyped (TypedArray Float32Array [1, 2, 3]))])
       \<noteq> eraseTypes nestedVertex
   \<and> encode flattenToTypedArray noImage (JStr ''#/a'')
       = Inr \<lparr>skeleton = JStr ''##/a'', accessors = [], imageBuffers = []\<rparr>
   \<and> encode flattenToTypedArray noImage (JStr ''##/a'')
       = Inr \<lparr>skeleton = JStr ''##/a'', accessors = [], imageBuffers = []\<rparr>
   \<and> decode \<lparr>skeleton = JStr ''##/a'', accessors = [], imageBuffers = []\<rparr>
       = Inr (JStr ''#/a'')
   \<and> encode flattenToTypedArray noImage (JObj [(''colors'', JArr [])]) = Inl TypeError"
  by (simp add: encode_def decode_def nestedVertex_def flattenObject_def
      flattenToTypedArray_def defaultOptions_def packBinaryJsonTypedArray_def addBuffer_def
      noImage_def showNat_0 unpackString_def pointerIndex_def stripPrefix_def parseNat_def
      isDigit_def)

text \<open>What the amended statement leaves out. The escape is not injective, whatever the
  helper and the builder. An array under \<open>points\<close> for which the helper returns no buffer
  is not walked element by element either: the truthy \<open>{typedArray: null}\<close> passes the
  test of line 44 and the skeleton holds \<open>null\<close> in place of the array.\<close>

lemma escape_not_injective:
  "packBinaryJson F (JStr ''#/a'') g key opts = packBinaryJson F (JStr ''##/a'') g key opts"
  by simp

lemma declined_array_becomes_null:
  "F xs 3 Float32Array = None \<Longrightarrow>
   encode F img (JObj [(''points'', JArr xs)])
     = Inr \<lparr>skeleton = JObj [(''points'', JNull)], accessors = [], imageBuffers = []\<rparr>"
  by (simp add: encode_def flattenObject_def defaultOptions_def)











text \<open>Whatever the flattening helper returns for that array, the skeleton holds no string
  at the position.\<close>

lemma string_among_points_lost:
  assumes "packBinaryJson F pointsWithString g KeyNull defaultOptions = Inr (sk, g')"
  shows "lookup sk [Field ''points'', Index 0] = None"
  using assms
  by (auto simp: pointsWithString_def flattenObject_def defaultOptions_def
      packBinaryJsonTypedArray_def typedArrayAsObject_def Let_def
      split: option.splits if_splits prod.splits TypedArray.splits)

text \<open>The stride of a \<open>colors\<close> array by the kind of its first element: \<open>length\<close> is the
  number of elements of an array or a typed array, the number of characters of a string,
  the property of that name of an object, and \<open>undefined\<close> for a number or a boolean.\<close>

lemma color_stride_by_first_element:
  "flattenObject F (KeyStr ''colors'') (JArr c # rest) =
     Inr (Some (F (JArr c # rest) (if length c = 4 then 4 else 3) Uint8Array,
                if length c = 4 then 4 else 3))"
  "flattenObject F (KeyStr ''colors'') (JTyped (TypedArray ty ns) # rest) =
     Inr (Some (F (JTyped (TypedArray ty ns) # rest) (if length ns = 4 then 4 else 3) Uint8Array,
                if length ns = 4 then 4 else 3))"
  "flattenObject F (KeyStr ''colors'') (JStr s # rest) =
     Inr (Some (F (JStr s # rest) (if length s = 4 then 4 else 3) Uint8Array,
                if length s = 4 then 4 else 3))"
  "flattenObject F (KeyStr ''colors'') (JObj kvs # rest) =
     Inr (Some (F (JObj kvs # rest)
                  (if map_of kvs ''length'' = Some (JNum 4) then 4 else 3) Uint8Array,
                if map_of kvs ''length'' = Some (JNum 4) then 4 else 3))"
  "flattenObject F (KeyStr ''colors'') (JNum n # rest) =
     Inr (Some (F (JNum n # rest) 3 Uint8Array, 3))"
  "flattenObject F (KeyStr ''colors'') (JBool b # rest) =
     Inr (Some (F (JBool b # rest) 3 Uint8Array, 3))"
  by (simp_all add: flattenObject_def)

text \<open>
  C6. The stride of a \<open>colors\<close> array is read from the \<open>length\<close> of its first element
  (line 77). A \<open>colors\<close> array without elements, or with \<open>null\<close> for its first element, is
  not flattened with the stride 3: the read throws a \<open>TypeError\<close>, and with it the
  encoding of every tree that holds such an array. An empty array under \<open>vertices\<close> or
  \<open>points\<close> is handed to the flattening helper with the stride 3.
\<close>

theorem colors_without_first_element_throws:
  "flattenObject F (KeyStr ''colors'') [] = Inl TypeError
   \<and> flattenObject F (KeyStr ''colors'') (JNull # rest) = Inl TypeError
   \<and> packBinaryJson F (JObj [(''colors'', JArr [])]) g KeyNull defaultOptions = Inl TypeError
   \<and> encode F img (JObj [(''colors'', JArr [])]) = Inl TypeError
   \<and> encode F img (JObj [(''colors'', JArr [JNull, JArr [JNum 0, JNum 0, JNum 255]])])
       = Inl TypeError
   \<and> flattenObject F (KeyStr ''vertices'') [] = Inr (Some (F [] 3 Float32Array, 3))
   \<and> flattenObject F (KeyStr ''points'') [] = Inr (Some (F [] 3 Float32Array, 3))"
  by (simp add: flattenObject_def encode_def defaultOptions_def)

section \<open>Properties of the websocket sender\<close>

lemma sendDataDirect_iff:
  "sendDataDirect self msg \<longleftrightarrow>
     (\<not> truthy (format (senderOptions self))
        \<or> format (senderOptions self) = Format (dataFormat msg))
     \<and> \<not> hasMessage msg"
  by (auto simp: sendDataDirect_def Let_def XVIZFormat_object_def)

lemma onStateUpdate_effect:
  "snd (onStateUpdate self msg) =
     (if sendDataDirect self msg
      then writeSync (senderOptions self) ''2-frame'' (Unchanged (buffer msg))
      else WriteFrame (case writer self of
                         None \<Rightarrow> getFormatOptions self msg
                       | Some w \<Rightarrow> if senderFormat self = getFormatOptions self msg then w
                                   else getFormatOptions self msg) 0 msg)"
  by (simp add: onStateUpdate_def Let_def syncFormatWithWriter_def split: option.splits)

lemma onMetadata_effect:
  "snd (onMetadata self msg) =
     (if sendDataDirect self msg
      then writeSync (senderOptions self) ''1-frame'' (Unchanged (buffer msg))
      else WriteMetadata (case writer self of
                            None \<Rightarrow> getFormatOptions self msg
                          | Some w \<Rightarrow> if senderFormat self = getFormatOptions self msg then w
                                      else getFormatOptions self msg) msg)"
  by (simp add: onMetadata_def Let_def syncFormatWithWriter_def split: option.splits)

text \<open>
  C7, as amended. For every outgoing metadata or state-update message whose data is not
  in the in-memory object form, the sender writes \<open>msg.data.buffer\<close> unchanged to the sink
  exactly when no target format is configured or the configured format equals the data's
  current format, and no materialized object exists on the message; in every other case
  it hands the message to a format writer (\<open>writeMetadata\<close>, or \<open>writeFrame\<close> with index 0).
  What the sender does with data in the object form, and with error and done messages, is
  not part of the statement.
\<close>

theorem frames_forwarded_or_reencoded:
  assumes "kind = MetadataMsg \<or> kind = StateUpdateMsg"
    and "dataFormat msg \<noteq> OBJECT"
  shows "(forwardsUnchanged (snd (send self kind msg)) msg \<longleftrightarrow>
            (\<not> truthy (format (senderOptions self))
               \<or> format (senderOptions self) = Format (dataFormat msg))
            \<and> \<not> hasMessage msg)
       \<and> (reencodes (snd (send self kind msg)) msg \<longleftrightarrow>
            \<not> ((\<not> truthy (format (senderOptions self))
                  \<or> format (senderOptions self) = Format (dataFormat msg))
               \<and> \<not> hasMessage msg))"
proof -
  have "forwardsUnchanged (snd (send self kind msg)) msg = sendDataDirect self msg
      \<and> reencodes (snd (send self kind msg)) msg = (\<not> sendDataDirect self msg)"
    using assms(1)
    by (auto simp: send_def onStateUpdate_effect onMetadata_effect forwardsUnchanged_def
        reencodes_def writeSync_def split: if_splits)
  then show ?thesis
    by (simp only: sendDataDirect_iff)
qed

text \<open>A sender built with \<open>{format: 'BINARY'}\<close> forwards a binary frame as it is and
  hands it to a writer once its object was materialized; it hands a JSON string to a
  writer. A sender built with \<open>{format: null}\<close> forwards the JSON string as it is.\<close>

theorem frames_forwarded_or_reencoded_witness:
  "newSender (senderOptions binarySender) = Inr binarySender
   \<and> newSender (senderOptions nullSender) = Inr nullSender
   \<and> dataFormat binaryFrame \<noteq> OBJECT \<and> dataFormat jsonFrame \<noteq> OBJECT
   \<and> forwardsUnchanged (snd (send binarySender StateUpdateMsg binaryFrame)) binaryFrame
   \<and> snd (send binarySender StateUpdateMsg binaryFrame)
       = SocketSend (Unchanged (buffer binaryFrame)) False
   \<and> reencodes (snd (send binarySender StateUpdateMsg (binaryFrame\<lparr>hasMessage := True\<rparr>)))
       (binaryFrame\<lparr>hasMessage := True\<rparr>)
   \<and> snd (send binarySender StateUpdateMsg (binaryFrame\<lparr>hasMessage := True\<rparr>))
       = WriteFrame (Format BINARY) 0 (binaryFrame\<lparr>hasMessage := True\<rparr>)
   \<and> reencodes (snd (send binarySender MetadataMsg jsonFrame)) jsonFrame
   \<and> snd (send binarySender MetadataMsg jsonFrame) = WriteMetadata (Format BINARY) jsonFrame
   \<and> forwardsUnchanged (snd (send nullSender MetadataMsg jsonFrame)) jsonFrame
   \<and> snd (send nullSender MetadataMsg jsonFrame)
       = SocketSend (Unchanged (buffer jsonFrame)) True"
  using frames_forwarded_or_reencoded [of StateUpdateMsg binaryFrame binarySender]
    frames_forwarded_or_reencoded [of StateUpdateMsg "binaryFrame\<lparr>hasMessage := True\<rparr>" binarySender]
    frames_forwarded_or_reencoded [of MetadataMsg jsonFrame binarySender]
    frames_forwarded_or_reencoded [of MetadataMsg jsonFrame nullSender]
  by (simp add: binarySender_def nullSender_def binaryFrame_def jsonFrame_def newSender_def
      XVIZFormat_object_def XVIZFormat_binary_def truthy_def send_def onStateUpdate_def
      onMetadata_def sendDataDirect_def getFormatOptions_def syncFormatWithWriter_def
      writeSync_def isString_def Let_def)

text \<open>The claim as stated speaks of every outgoing message. An error message whose data
  is binary, sent by a sender configured for \<open>BINARY\<close>, with no materialized object, meets
  the condition for forwarding; the sender sends \<open>JSON.stringify(msg.data.buffer)\<close>
  instead, which is neither the bytes unchanged nor a call of a format writer. The same
  holds for the done message. And data in the object form, which the claim wants handed
  to a writer, is written to the socket as it is by a sender built with
  \<open>{format: 'OBJECT'}\<close>.\<close>

theorem error_message_and_object_data_not_as_claimed:
  "newSender (senderOptions binarySender) = Inr binarySender
   \<and> format (senderOptions binarySender) = Format (dataFormat binaryFrame)
   \<and> dataFormat binaryFrame \<noteq> OBJECT \<and> \<not> hasMessage binaryFrame
   \<and> snd (send binarySender ErrorMsg binaryFrame)
       = SocketSend (JsonStringify (buffer binaryFrame)) True
   \<and> \<not> forwardsUnchanged (snd (send binarySender ErrorMsg binaryFrame)) binaryFrame
   \<and> \<not> reencodes (snd (send binarySender ErrorMsg binaryFrame)) binaryFrame
   \<and> snd (send binarySender TransformLogDoneMsg binaryFrame)
       = SocketSend (JsonStringify (buffer binaryFrame)) True
   \<and> \<not> forwardsUnchanged (snd (send binarySender TransformLogDoneMsg binaryFrame)) binaryFrame
   \<and> \<not> reencodes (snd (send binarySender TransformLogDoneMsg binaryFrame)) binaryFrame
   \<and> newSender (senderOptions objectSender) = Inr objectSender
   \<and> dataFormat objectFrame = OBJECT
   \<and> snd (send objectSender StateUpdateMsg objectFrame)
       = SocketSend (Unchanged (buffer objectFrame)) False
   \<and> forwardsUnchanged (snd (send objectSender StateUpdateMsg objectFrame)) objectFrame
   \<and> \<not> reencodes (snd (send objectSender StateUpdateMsg objectFrame)) objectFrame"
  by (simp add: newSender_def binarySender_def binaryFrame_def objectSender_def objectFrame_def
      send_def onError_def onTransformLogDone_def onStateUpdate_def sendDataDirect_def
      XVIZFormat_object_def XVIZFormat_binary_def truthy_def writeSync_def isString_def
      forwardsUnchanged_def reencodes_def Let_def)

text \<open>What the amended statement leaves out. The reads of \<open>XVIZFormat.object\<close> are
  \<open>undefined\<close>, so the test of line 83 never excludes data in the object form: whenever
  no format is configured or the configured format is the object form, which the
  constructor accepts, the object itself is written to the socket, where the comment of
  lines 81-82 wants it formatted. The constructor refuses the options that leave \<open>format\<close>
  out. Data in the object form whose object was materialized goes to a writer built for
  the object form, not for the default format.\<close>

lemma object_data_forwarded_unchanged:
  assumes "dataFormat msg = OBJECT" and "\<not> hasMessage msg"
    and "\<not> truthy (format (senderOptions self)) \<or> format (senderOptions self) = Format OBJECT"
    and "kind = MetadataMsg \<or> kind = StateUpdateMsg"
  shows "forwardsUnchanged (snd (send self kind msg)) msg"
  using assms
  by (auto simp: send_def onStateUpdate_effect onMetadata_effect sendDataDirect_iff
      forwardsUnchanged_def writeSync_def)

lemma sender_without_format_refused:
  "newSender \<lparr>format = Undefined, socketFormatPreference = p, compress = c\<rparr>
     = Inl (CannotSendFormat Undefined)"
  by (simp add: newSender_def XVIZFormat_object_def)

lemma default_format_never_used:
  "snd (send nullSender StateUpdateMsg (objectFrame\<lparr>hasMessage := True\<rparr>))
     = WriteFrame (Format OBJECT) 0 (objectFrame\<lparr>hasMessage := True\<rparr>)
   \<and> defaultFormat nullSender = Format JSON_STRING"
  by (simp add: nullSender_def objectFrame_def send_def onStateUpdate_def sendDataDirect_def
      getFormatOptions_def syncFormatWithWriter_def XVIZFormat_object_def truthy_def Let_def)

section \<open>Properties of the parser\<close>

text \<open>
  C9. Unpacking an envelope splits its \<open>type\<close> on the first \<open>/\<close> into namespace and
  type: \<open>foo\<close> gives \<open>foo\<close> and the empty type, the empty string gives two empty strings,
  \<open>foo/bar\<close> gives \<open>foo\<close> and \<open>bar\<close>, and \<open>/foo/bar\<close> gives the empty namespace and
  \<open>foo/bar\<close>. In general the namespace holds no \<open>/\<close>; a \<open>type\<close> with a \<open>/\<close> is the
  namespace, one \<open>/\<close> and the type; a \<open>type\<close> without one is the namespace, and the type
  is empty.
\<close>

theorem envelope_type_split_on_first_slash:
  "namespace (unpackEnvelope ''foo'' d) = ''foo'' \<and> msgType (unpackEnvelope ''foo'' d) = []
 \<and> namespace (unpackEnvelope [] d) = [] \<and> msgType (unpackEnvelope [] d) = []
 \<and> namespace (unpackEnvelope ''foo/bar'' d) = ''foo''
 \<and> msgType (unpackEnvelope ''foo/bar'' d) = ''bar''
 \<and> namespace (unpackEnvelope ''/foo/bar'' d) = []
 \<and> msgType (unpackEnvelope ''/foo/bar'' d) = ''foo/bar''
 \<and> CHR ''/'' \<notin> set (namespace (unpackEnvelope s d))
 \<and> (if CHR ''/'' \<in> set s
     then s = namespace (unpackEnvelope s d) @ ''/'' @ msgType (unpackEnvelope s d)
     else namespace (unpackEnvelope s d) = s \<and> msgType (unpackEnvelope s d) = [])
 \<and> msgData (unpackEnvelope s d) = d"
proof -
  let ?p = "\<lambda>c. c \<noteq> CHR ''/''"
  have ns: "CHR ''/'' \<notin> set (takeWhile ?p s)"
    by (auto dest: set_takeWhileD)
  have split: "CHR ''/'' \<in> set s \<Longrightarrow> s = takeWhile ?p s @ ''/'' @ drop 1 (dropWhile ?p s)"
  proof -
    assume "CHR ''/'' \<in> set s"
    then have "dropWhile ?p s \<noteq> []" by auto
    then obtain r where r: "dropWhile ?p s = CHR ''/'' # r"
      using hd_dropWhile[of ?p s] by (cases "dropWhile ?p s") auto
    have "s = takeWhile ?p s @ dropWhile ?p s" by simp
    then show ?thesis unfolding r by simp
  qed
  have nosplit: "CHR ''/'' \<notin> set s \<Longrightarrow> takeWhile ?p s = s \<and> drop 1 (dropWhile ?p s) = []"
  proof -
    assume a: "CHR ''/'' \<notin> set s"
    then have d: "dropWhile ?p s = []" by auto
    from a have t: "takeWhile ?p s = s" by auto
    show ?thesis unfolding d t by simp
  qed
  show ?thesis
    using ns split nosplit by (simp add: unpackEnvelope_def)
qed

text \<open>
  C5. For every parsed message, if the detected major version is not a member of the
  configured \<open>supportedVersions\<close>, parsing throws \<open>UnsupportedVersion\<close>, which names the
  detected version and the required set; a version string that is present and does not
  parse throws the "unable to detect version" error.
\<close>

theorem unsupported_or_undetectable_version_throws:
  "(detectVersion cfg (version m) = Inr detected \<and> detected \<notin> set (supportedVersions cfg) \<longrightarrow>
      parseStreamLogData cfg m = Inl (UnsupportedVersion detected (supportedVersions cfg)))
   \<and> (version m = Some s \<and> majorVersion s = None \<longrightarrow>
      parseStreamLogData cfg m = Inl UndetectableVersion)"
  by (simp add: parseStreamLogData_def checkSupported_def detectVersion_def)

text \<open>\<open>supportedVersions = [2]\<close> with a version 1 message, \<open>supportedVersions = [1]\<close> with
  a version 2 message, and the version string \<open>abc\<close>.\<close>

theorem unsupported_or_undetectable_version_throws_witness:
  "detectVersion testConfig (Some ''1.0.0'') = Inr 1 \<and> 1 \<notin> set (supportedVersions testConfig)
   \<and> parseStreamLogData testConfig
        (emptyMessage\<lparr>declaredType := Some ''metadata'', version := Some ''1.0.0''\<rparr>)
       = Inl (UnsupportedVersion 1 [2])
   \<and> parseStreamLogData (testConfig\<lparr>supportedVersions := [1]\<rparr>)
        (emptyMessage\<lparr>declaredType := Some ''metadata'', version := Some ''2.0.0''\<rparr>)
       = Inl (UnsupportedVersion 2 [1])
   \<and> majorVersion ''abc'' = None
   \<and> parseStreamLogData testConfig
        (emptyMessage\<lparr>declaredType := Some ''metadata'', version := Some ''abc''\<rparr>)
       = Inl UndetectableVersion"
  using unsupported_or_undetectable_version_throws
      [of testConfig "emptyMessage\<lparr>declaredType := Some ''metadata'', version := Some ''1.0.0''\<rparr>"
          1 "''abc''"]
    unsupported_or_undetectable_version_throws
      [of "testConfig\<lparr>supportedVersions := [1]\<rparr>"
          "emptyMessage\<lparr>declaredType := Some ''metadata'', version := Some ''2.0.0''\<rparr>"
          2 "''abc''"]
    unsupported_or_undetectable_version_throws
      [of testConfig "emptyMessage\<lparr>declaredType := Some ''metadata'', version := Some ''abc''\<rparr>"
          1 "''abc''"]
  by (simp add: testConfig_def emptyMessage_def detectVersion_def majorVersion_def parseNat_def
      isDigit_def)

lemma find_first:
  "list_all (\<lambda>x. \<not> P x) pre \<Longrightarrow> P x \<Longrightarrow> find P (pre @ x # post) = Some x"
  by (induction pre) auto

lemma firstPoseTimestamp_decomp:
  assumes "ps = pre @ (name, p) # post"
    and "list_all (\<lambda>(n, q). poseTimestamp q = None) pre"
    and "poseTimestamp p = Some t"
  shows "firstPoseTimestamp ps = Some t"
proof -
  have "list_all (\<lambda>x. \<not> (case x of (n, q) \<Rightarrow> poseTimestamp q \<noteq> None)) pre"
    using assms(2) by (auto simp: list_all_iff)
  then have "find (\<lambda>(n, q). poseTimestamp q \<noteq> None) (pre @ (name, p) # post) = Some (name, p)"
    using assms(3) by (intro find_first) auto
  then show ?thesis
    using assms(1,3) by (simp add: firstPoseTimestamp_def)
qed

text \<open>
  C4. A timeslice message whose only defect is a null or absent top-level timestamp (it
  passes the version gate, its updates are present and non-empty and each resolves a
  timestamp), while at least one pose carries its own timestamp, parses to a \<open>Timeslice\<close>,
  not to \<open>Incomplete\<close>, and the timestamp of the \<open>Timeslice\<close> is that of the first pose, in
  the order the updates and their streams are listed, that carries one.
\<close>

theorem pose_timestamp_promoted:
  assumes "detectVersion cfg (version m) = Inr v" and "v \<in> set (supportedVersions cfg)"
    and "subTypeOf m = Some StateUpdateType"
    and "updatesOf v m = Some us" and "us \<noteq> []"
    and "list_all (\<lambda>u. resolveTimestamp cfg m u \<noteq> None) us"
    and "timestamp m = None"
    and "framePoses cfg m us = pre @ (name, p) # post"
    and "list_all (\<lambda>(n, q). poseTimestamp q = None) pre"
    and "poseTimestamp p = Some t"
  shows "parseStreamLogData cfg m = Inr (Some (Timeslice t (frameStreams us)), cfg)"
proof -
  have first: "firstPoseTimestamp (framePoses cfg m us) = Some t"
    using assms(8-10) by (rule firstPoseTimestamp_decomp)
  obtain u rest where us: "us = u # rest" using assms(5) by (cases us) auto
  have "parseTimeslice cfg v m = Timeslice t (frameStreams us)"
    using assms(4,6) first unfolding us
    by (simp add: parseTimeslice_def frameTimestamp_def)
  then show ?thesis
    using assms(1-3) by (simp add: parseStreamLogData_def checkSupported_def)
qed

text \<open>\<open>TestTimesliceMessageV2\<close> with \<open>timestamp: null\<close> (test of lines 420-432), and an
  update whose poses disagree: the first pose that has a timestamp wins.\<close>

theorem pose_timestamp_promoted_witness:
  "detectVersion testConfig (version testTimeslice) = Inr 2
   \<and> 2 \<in> set (supportedVersions testConfig)
   \<and> subTypeOf testTimeslice = Some StateUpdateType
   \<and> updatesOf 2 testTimeslice = Some [testUpdate] \<and> [testUpdate] \<noteq> []
   \<and> list_all (\<lambda>u. resolveTimestamp testConfig testTimeslice u \<noteq> None) [testUpdate]
   \<and> timestamp testTimeslice = None
   \<and> framePoses testConfig testTimeslice [testUpdate] = [] @ (''/vehicle_pose'', testPose) # []
   \<and> poseTimestamp testPose = Some 1001
   \<and> parseStreamLogData testConfig testTimeslice
       = Inr (Some (Timeslice 1001 (frameStreams [testUpdate])), testConfig)
   \<and> parseStreamLogData testConfig (testTimeslice\<lparr>updates := Some [threePoses]\<rparr>)
       = Inr (Some (Timeslice 5 []), testConfig)"
  using pose_timestamp_promoted
      [of testConfig testTimeslice 2 "[testUpdate]" "[]" "''/vehicle_pose''" testPose "[]" 1001]
    pose_timestamp_promoted
      [of testConfig "testTimeslice\<lparr>updates := Some [threePoses]\<rparr>" 2 "[threePoses]"
          "[(''/a'', \<lparr>poseTimestamp = None\<rparr>)]" "''/b''" "\<lparr>poseTimestamp = Some 5\<rparr>"
          "[(''/c'', \<lparr>poseTimestamp = Some 7\<rparr>)]" 5]
  by (simp add: testConfig_def testTimeslice_def emptyMessage_def testUpdate_def testPose_def
      threePoses_def detectVersion_def subTypeOf_def updatesOf_def resolveTimestamp_def
      frameStreams_def framePoses_def messagePoses_def)

text \<open>The model agrees with the test of lines 492-513: a v1 message with a top-level
  timestamp, a \<open>vehicle_pose\<close> and one state update without a timestamp parses to a
  \<open>Timeslice\<close> whose timestamp is the pose's time.\<close>

lemma v1_timeslice_takes_pose_time:
  "parseStreamLogData (testConfig\<lparr>currentMajorVersion := 1, supportedVersions := [1, 2]\<rparr>)
     (emptyMessage\<lparr>timestamp := Some 1001.1,
                    state_updates := Some [\<lparr>updateTimestamp = None, poses = [],
                                            pointPrimitives = []\<rparr>],
                    vehicle_pose := Some \<lparr>poseTimestamp = Some 1001.2\<rparr>\<rparr>)
   = Inr (Some (Timeslice 1001.2 []),
          testConfig\<lparr>currentMajorVersion := 1, supportedVersions := [1, 2]\<rparr>)"
proof -
  have carries: "\<exists>y::real. y * 5 = 5006"
    by (rule exI [of _ "5006 / 5"]) simp
  show ?thesis
    using carries
    by (simp add: parseStreamLogData_def testConfig_def emptyMessage_def detectVersion_def
        checkSupported_def subTypeOf_def parseTimeslice_def updatesOf_def resolveTimestamp_def
        messagePoses_def framePoses_def frameTimestamp_def firstPoseTimestamp_def
        frameStreams_def)
qed

end
